theory Spec2Isabelle
  imports Complex_Main "HOL-Library.Signed_Division" "HOL-Library.Sublist"
begin

section \<open>Time and durations\<close>

text \<open>
  A \<open>time.Time\<close> is an instant, here a number of nanoseconds on one fixed axis; a
  \<open>time.Duration\<close> is a 64-bit count of nanoseconds. \<open>Time.Sub\<close> saturates at the
  smallest and the largest duration, as Go documents.
\<close>

type_synonym time = int
type_synonym duration = int

definition Second :: duration where
  "Second = 1000000000"

definition Minute :: duration where
  "Minute = 60 * Second"

definition Hour :: duration where
  "Hour = 60 * Minute"

definition minDuration :: duration where
  "minDuration = - (2 ^ 63)"

definition maxDuration :: duration where
  "maxDuration = 2 ^ 63 - 1"

definition Sub :: "time \<Rightarrow> time \<Rightarrow> duration" where
  "Sub t u = (if t - u < minDuration then minDuration
              else if maxDuration < t - u then maxDuration else t - u)"

definition Add :: "time \<Rightarrow> duration \<Rightarrow> time" where
  "Add t d = t + d"

definition Before :: "time \<Rightarrow> time \<Rightarrow> bool" where
  "Before t u = (t < u)"

definition Unix :: "int \<Rightarrow> int \<Rightarrow> time" where
  "Unix sec nsec = sec * Second + nsec"

section \<open>Strings\<close>

text \<open>
  Go strings are byte strings, as \<open>string\<close> is here. \<open>strings.Split\<close> and
  \<open>strings.SplitN\<close> are only called with a one-byte separator in this program, so the
  separator is a \<open>char\<close>.
\<close>

text \<open>\<open>consFirst c fields\<close> puts the byte \<open>c\<close> in front of the first field.\<close>

fun consFirst :: "char \<Rightarrow> string list \<Rightarrow> string list" where
  "consFirst c [] = [[c]]"
| "consFirst c (x # xs) = (c # x) # xs"

fun Split :: "string \<Rightarrow> char \<Rightarrow> string list" where
  "Split [] sep = [[]]"
| "Split (c # cs) sep =
     (if c = sep then [] # Split cs sep else consFirst c (Split cs sep))"

text \<open>\<open>SplitN s sep n\<close> for \<open>n > 0\<close>: at most \<open>n\<close> substrings, the last one the unsplit
  remainder; \<open>n = 0\<close> gives no substring at all.\<close>

fun SplitN :: "string \<Rightarrow> char \<Rightarrow> nat \<Rightarrow> string list" where
  "SplitN s sep 0 = []"
| "SplitN s sep (Suc 0) = [s]"
| "SplitN [] sep (Suc (Suc n)) = [[]]"
| "SplitN (c # cs) sep (Suc (Suc n)) =
     (if c = sep then [] # SplitN cs sep (Suc n)
      else consFirst c (SplitN cs sep (Suc (Suc n))))"

text \<open>\<open>strings.LastIndex\<close> for a one-byte separator: the index of its last occurrence,
  or -1.\<close>

definition LastIndex :: "string \<Rightarrow> char \<Rightarrow> int" where
  "LastIndex s sep =
     (if sep \<in> set s
      then int (length s) - 1 - int (length (takeWhile (\<lambda>c. c \<noteq> sep) (rev s)))
      else - 1)"

text \<open>
  \<open>strings.TrimSpace\<close> removes leading and trailing white space as Unicode defines it.
  On a byte string these are the six ASCII bytes and the UTF-8 encodings of U+0085,
  U+00A0, U+1680, U+2000 to U+200A, U+2028, U+2029, U+202F, U+205F and U+3000.
\<close>

definition spaceRunes :: "string list" where
  "spaceRunes =
     [[CHR 0x09], [CHR 0x0A], [CHR 0x0B], [CHR 0x0C], [CHR 0x0D], [CHR 0x20],
      [CHR 0xC2, CHR 0x85], [CHR 0xC2, CHR 0xA0],
      [CHR 0xE1, CHR 0x9A, CHR 0x80],
      [CHR 0xE2, CHR 0x80, CHR 0x80], [CHR 0xE2, CHR 0x80, CHR 0x81],
      [CHR 0xE2, CHR 0x80, CHR 0x82], [CHR 0xE2, CHR 0x80, CHR 0x83],
      [CHR 0xE2, CHR 0x80, CHR 0x84], [CHR 0xE2, CHR 0x80, CHR 0x85],
      [CHR 0xE2, CHR 0x80, CHR 0x86], [CHR 0xE2, CHR 0x80, CHR 0x87],
      [CHR 0xE2, CHR 0x80, CHR 0x88], [CHR 0xE2, CHR 0x80, CHR 0x89],
      [CHR 0xE2, CHR 0x80, CHR 0x8A],
      [CHR 0xE2, CHR 0x80, CHR 0xA8], [CHR 0xE2, CHR 0x80, CHR 0xA9],
      [CHR 0xE2, CHR 0x80, CHR 0xAF], [CHR 0xE2, CHR 0x81, CHR 0x9F],
      [CHR 0xE3, CHR 0x80, CHR 0x80]]"

text \<open>The rest of \<open>s\<close> after the first of \<open>runes\<close> that \<open>s\<close> starts with.\<close>

fun dropRune :: "string list \<Rightarrow> string \<Rightarrow> string option" where
  "dropRune [] s = None"
| "dropRune (r # rs) s =
     (if r \<noteq> [] \<and> prefix r s then Some (drop (length r) s) else dropRune rs s)"

lemma dropRune_shorter: "dropRune rs s = Some t \<Longrightarrow> length t < length s"
  by (induction rs) (auto split: if_splits simp: prefix_def)

function trimLeft :: "string list \<Rightarrow> string \<Rightarrow> string" where
  "trimLeft runes s = (case dropRune runes s of None \<Rightarrow> s | Some t \<Rightarrow> trimLeft runes t)"
  by pat_completeness auto
termination
  by (relation "measure (\<lambda>(runes, s). length s)") (auto dest: dropRune_shorter)

declare trimLeft.simps [simp del]

definition TrimSpace :: "string \<Rightarrow> string" where
  "TrimSpace s = rev (trimLeft (map rev spaceRunes) (rev (trimLeft spaceRunes s)))"

section \<open>Errors\<close>

text \<open>One constructor for each \<open>fmt.Errorf\<close> of the program; where the Go error wraps or
  prints a cause, the constructor carries it. \<open>Error\<close> is the message of the Go error.\<close>

datatype error =
    GlobalRateLimitExceeded
  | ClientRateLimitExceeded
  | FailedToGenerateJWT string
  | FailedToGetInstallationToken error
  | FailedToCreateRequest string
  | FailedToFetchInstallationToken string
  | InstallationTokenStatus string
  | FailedToParseResponse string
  | FailedToFetchFile string
  | FetchFileStatus string
  | FailedToParseFileData string
  | FailedToCreateDownloadRequest string
  | FailedToDownloadFile string
  | FailedToReadDownloadResponse string
  | FailedToDecodeFileContent string
  | FailedToFetchRateLimit string
  | RateLimitStatus string
  | FailedToParseRateLimit string

fun Error :: "error \<Rightarrow> string" where
  "Error GlobalRateLimitExceeded = ''global rate limit exceeded''"
| "Error ClientRateLimitExceeded = ''client rate limit exceeded''"
| "Error (FailedToGenerateJWT m) = ''failed to generate JWT: '' @ m"
| "Error (FailedToGetInstallationToken e) = ''failed to get installation token: '' @ Error e"
| "Error (FailedToCreateRequest m) = ''failed to create request: '' @ m"
| "Error (FailedToFetchInstallationToken m) = ''failed to fetch installation token: '' @ m"
| "Error (InstallationTokenStatus st) = ''failed to get installation token: '' @ st"
| "Error (FailedToParseResponse m) = ''failed to parse response: '' @ m"
| "Error (FailedToFetchFile m) = ''failed to fetch file: '' @ m"
| "Error (FetchFileStatus st) = ''failed to fetch file: '' @ st"
| "Error (FailedToParseFileData m) = ''failed to parse file data: '' @ m"
| "Error (FailedToCreateDownloadRequest m) = ''failed to create download request: '' @ m"
| "Error (FailedToDownloadFile m) = ''failed to download file: '' @ m"
| "Error (FailedToReadDownloadResponse m) = ''failed to read download response: '' @ m"
| "Error (FailedToDecodeFileContent m) = ''failed to decode file content: '' @ m"
| "Error (FailedToFetchRateLimit m) = ''failed to fetch rate limit: '' @ m"
| "Error (RateLimitStatus st) = ''failed to fetch rate limit: '' @ st"
| "Error (FailedToParseRateLimit m) = ''failed to parse rate limit response: '' @ m"

section \<open>The token bucket\<close>

text \<open>
  Modelled from the spec: the token bucket behind \<open>rate.Limiter\<close>. The program takes it
  from the package golang.org/x/time/rate, whose code is not part of the repository; the
  spec describes it as TokenBucket (section 4.1) with the bucket state of section 3:
  a capacity, a number of tokens, a refill rate and the instant of the last refill.
  \<open>Allow\<close> computes the time elapsed since \<open>lastRefill\<close>, adds the tokens refilled in
  that time capped at \<open>capacity\<close>, updates \<open>lastRefill\<close>, and then takes one token and
  admits if there is at least one, and rejects with the tokens unchanged otherwise.

  The program states every rate as \<open>rate.Every d\<close>, one token each \<open>d\<close> nanoseconds, so
  the bucket keeps the interval \<open>d\<close>; the refill of an elapsed time \<open>t\<close> is \<open>t / d\<close>
  tokens, a rational number here where the package computes in floating point; a
  clock reading before \<open>lastRefill\<close> counts as no time elapsed.
  The package documents \<open>rate.Every d\<close> for \<open>d \<le> 0\<close> as the infinite rate, which admits
  every event. A new limiter starts full.
\<close>

record Limiter =
  refillInterval :: duration
  capacity :: int
  tokens :: rat
  lastRefill :: time

definition NewLimiter :: "duration \<Rightarrow> int \<Rightarrow> Limiter" where
  "NewLimiter d b = \<lparr>refillInterval = d, capacity = b, tokens = of_int b, lastRefill = 0\<rparr>"

definition refill :: "time \<Rightarrow> Limiter \<Rightarrow> Limiter" where
  "refill now bk =
     (let elapsed = max 0 (Sub now (lastRefill bk));
          t = min (of_int (capacity bk))
                  (tokens bk + of_int elapsed / of_int (refillInterval bk))
      in bk\<lparr>tokens := t, lastRefill := now\<rparr>)"

definition Allow :: "time \<Rightarrow> Limiter \<Rightarrow> bool \<times> Limiter" where
  "Allow now bk =
     (if refillInterval bk \<le> 0 then (True, bk)
      else let l = refill now bk
           in if 1 \<le> tokens l then (True, l\<lparr>tokens := tokens l - 1\<rparr>) else (False, l))"

section \<open>Requests, the outside world and the state of the process\<close>

text \<open>What the handler reads of an \<open>http.Request\<close>: the method, \<open>URL.Path\<close>,
  \<open>Header.Get\<close> (the empty string for a header that is absent) and \<open>RemoteAddr\<close>.\<close>

record Request =
  Method :: string
  URLPath :: string
  HeaderGet :: "string \<Rightarrow> string"
  RemoteAddr :: string

text \<open>What the handler writes to the \<open>http.ResponseWriter\<close>.\<close>

record Reply =
  Code :: nat
  ContentType :: string
  Content :: string

text \<open>An upstream response: status code, status line, and the body as the program reads
  it (\<open>Inl\<close> when decoding or reading the body fails).\<close>

record 'b Response =
  StatusCode :: nat
  Status :: string
  Body :: "string + 'b"

text \<open>The fields the program decodes from the upstream JSON bodies.\<close>

record fileData =
  fdContent :: string
  fdName :: string
  fdEncoding :: string
  fdSize :: int
  fdDownloadURL :: string

record RateLimit =
  Limit :: int
  Remaining :: int
  Reset :: int

text \<open>
  Everything one run of a function takes from outside the process: whether the server's
  context is cancelled, the reading of the clock at each \<open>time.Now()\<close>, and what the
  signing of the JWT, \<open>http.NewRequest\<close> and each upstream endpoint answer to what they are
  given (\<open>Inl\<close> is the transport's error). \<open>TypeByExtension\<close> and \<open>Detect\<close> are the two
  content-type libraries.
\<close>

record env =
  ctxErr :: bool
  nowGlobal :: time
  nowSeen :: time
  nowClient :: time
  nowToken :: time
  nowMint :: time
  nowInit :: time
  signJWT :: "string \<Rightarrow> string + string"
  newRequest :: "string \<Rightarrow> string \<Rightarrow> string option"
  postAccessTokens :: "string \<Rightarrow> string \<Rightarrow> string + string Response"
  getContents :: "string \<Rightarrow> string \<Rightarrow> string + fileData Response"
  getDownload :: "string \<Rightarrow> string \<Rightarrow> string + string Response"
  getRateLimit :: "string \<Rightarrow> string + RateLimit Response"
  TypeByExtension :: "string \<Rightarrow> string"
  Detect :: "string \<Rightarrow> string option"

text \<open>The calls that leave the process, in the order they are made.\<close>

datatype call =
    SignJWT string
  | Post string string
  | Get string string

record clientLimiter =
  limiter :: Limiter
  lastSeen :: time

text \<open>The package-level variables, and the calls made so far. The flags \<open>-client-id\<close> and
  \<open>-installation-id\<close> are fixed at startup.\<close>

record state =
  globalLimiter :: Limiter
  clientLimiters :: "string \<rightharpoonup> clientLimiter"
  installationToken :: string
  installationTokenExpiry :: time
  calls :: "call list"

record flags =
  clientID :: string
  installationID :: string

section \<open>Rate limits\<close>

definition ClientRate :: duration where
  "ClientRate = Minute sdiv 60"

definition ClientBurst :: int where
  "ClientBurst = 8"

definition getClientIP :: "Request \<Rightarrow> string" where
  "getClientIP r =
     (if HeaderGet r ''X-Real-IP'' \<noteq> [] then HeaderGet r ''X-Real-IP''
      else if HeaderGet r ''X-Forwarded-For'' \<noteq> []
      then TrimSpace (hd (Split (HeaderGet r ''X-Forwarded-For'') CHR '',''))
      else let pos = LastIndex (RemoteAddr r) CHR '':''
           in if pos = - 1 then RemoteAddr r else take (nat pos) (RemoteAddr r))"

text \<open>\<open>getClientLimiter\<close> returns a pointer to the limiter it keeps in the map; the model
  returns the limiter, and \<open>putClientLimiter\<close> is the write through that pointer.\<close>

definition getClientLimiter :: "env \<Rightarrow> string \<Rightarrow> state \<Rightarrow> Limiter \<times> state" where
  "getClientLimiter e ip s =
     (case clientLimiters s ip of
        Some l \<Rightarrow>
          (limiter l, s\<lparr>clientLimiters := (clientLimiters s)(ip \<mapsto> l\<lparr>lastSeen := nowSeen e\<rparr>)\<rparr>)
      | None \<Rightarrow>
          (let l = NewLimiter ClientRate ClientBurst
           in (l, s\<lparr>clientLimiters :=
                       (clientLimiters s)(ip \<mapsto> \<lparr>limiter = l, lastSeen = nowSeen e\<rparr>)\<rparr>)))"

definition putClientLimiter :: "string \<Rightarrow> Limiter \<Rightarrow> state \<Rightarrow> state" where
  "putClientLimiter ip l s =
     (case clientLimiters s ip of
        Some c \<Rightarrow> s\<lparr>clientLimiters := (clientLimiters s)(ip \<mapsto> c\<lparr>limiter := l\<rparr>)\<rparr>
      | None \<Rightarrow> s)"

definition checkLimits :: "env \<Rightarrow> Request \<Rightarrow> state \<Rightarrow> error option \<times> state" where
  "checkLimits e r s =
     (let (ok, g) = Allow (nowGlobal e) (globalLimiter s);
          s1 = s\<lparr>globalLimiter := g\<rparr>
      in if \<not> ok then (Some GlobalRateLimitExceeded, s1)
         else let clientIP = getClientIP r;
                  (cl, s2) = getClientLimiter e clientIP s1;
                  (ok', cl') = Allow (nowClient e) cl;
                  s3 = putClientLimiter clientIP cl' s2
              in if \<not> ok' then (Some ClientRateLimitExceeded, s3) else (None, s3))"

section \<open>The installation token\<close>

text \<open>
  \<open>getInstallationToken\<close> holds \<open>tokenMutex\<close> from its first statement to its return, so a
  call runs from the state one call left to the state the next call finds. The log lines
  are left out.
\<close>

definition GenerateJWT :: "env \<Rightarrow> string \<Rightarrow> state \<Rightarrow> (string + string) \<times> state" where
  "GenerateJWT e cid s = (signJWT e cid, s\<lparr>calls := calls s @ [SignJWT cid]\<rparr>)"

definition GetInstallationToken ::
  "env \<Rightarrow> flags \<Rightarrow> string \<Rightarrow> state \<Rightarrow> (error + string \<times> time) \<times> state" where
  "GetInstallationToken e fl jwt s =
     (let url = ''https://api.github.com/app/installations/'' @ installationID fl
                @ ''/access_tokens''
      in case newRequest e ''POST'' url of
           Some m \<Rightarrow> (Inl (FailedToCreateRequest m), s)
         | None \<Rightarrow>
             (let s1 = s\<lparr>calls := calls s @ [Post url jwt]\<rparr>
              in case postAccessTokens e url jwt of
                   Inl m \<Rightarrow> (Inl (FailedToFetchInstallationToken m), s1)
                 | Inr resp \<Rightarrow>
                     if StatusCode resp \<noteq> 201
                     then (Inl (InstallationTokenStatus (Status resp)), s1)
                     else (case Body resp of
                             Inl m \<Rightarrow> (Inl (FailedToParseResponse m), s1)
                           | Inr tok \<Rightarrow> (Inr (tok, Add (nowMint e) Hour), s1))))"

definition getInstallationToken :: "env \<Rightarrow> flags \<Rightarrow> state \<Rightarrow> (error + string) \<times> state" where
  "getInstallationToken e fl s =
     (if Before (nowToken e) (installationTokenExpiry s) then (Inr (installationToken s), s)
      else case GenerateJWT e (clientID fl) s of
             (Inl m, s1) \<Rightarrow> (Inl (FailedToGenerateJWT m), s1)
           | (Inr jwt, s1) \<Rightarrow>
               (case GetInstallationToken e fl jwt s1 of
                  (Inl err, s2) \<Rightarrow> (Inl (FailedToGetInstallationToken err), s2)
                | (Inr (token, expiry), s2) \<Rightarrow>
                    (let s3 = s2\<lparr>installationToken := token,
                                  installationTokenExpiry := Add expiry (- (3 * Minute))\<rparr>
                     in (Inr (installationToken s3), s3))))"

section \<open>Concurrent callers of getInstallationToken\<close>

text \<open>
  Each request runs in a goroutine of its own, so several calls of
  \<open>getInstallationToken\<close> can be under way at once. The function locks \<open>tokenMutex\<close> in
  its first statement and unlocks it, deferred, when it returns, and the cached token and
  its expiry are read and written nowhere else. A system is the mutex, the shared state
  and the callers, each of them about to lock (\<open>Calling\<close>), inside the function with
  the mutex held (\<open>Holding\<close>, the only place where a token is minted), or back with
  its result. A step is a \<open>Lock\<close> by a caller that finds the mutex free (a caller that
  finds it taken waits), or the body of the function followed by the \<open>Unlock\<close>, run by
  the holder on the state it finds, with the world \<open>envs i\<close> of caller \<open>i\<close>. The callers
  interleave in any order.
\<close>

datatype caller = Calling | Holding | Returned "error + string"

record system =
  tokenMutex :: bool
  shared :: state
  callers :: "caller list"

inductive step :: "(nat \<Rightarrow> env) \<Rightarrow> flags \<Rightarrow> system \<Rightarrow> system \<Rightarrow> bool"
  for envs :: "nat \<Rightarrow> env" and fl :: flags where
  Lock:
    "i < length (callers c) \<Longrightarrow> callers c ! i = Calling \<Longrightarrow> \<not> tokenMutex c \<Longrightarrow>
       step envs fl c (c\<lparr>tokenMutex := True, callers := (callers c)[i := Holding]\<rparr>)"
| Unlock:
    "i < length (callers c) \<Longrightarrow> callers c ! i = Holding \<Longrightarrow>
     getInstallationToken (envs i) fl (shared c) = (res, s') \<Longrightarrow>
       step envs fl c
         (c\<lparr>tokenMutex := False, shared := s', callers := (callers c)[i := Returned res]\<rparr>)"

inductive reaches :: "(nat \<Rightarrow> env) \<Rightarrow> flags \<Rightarrow> system \<Rightarrow> system \<Rightarrow> bool"
  for envs :: "nat \<Rightarrow> env" and fl :: flags and c :: system where
  same: "reaches envs fl c c"
| after: "reaches envs fl c c' \<Longrightarrow> step envs fl c' c'' \<Longrightarrow> reaches envs fl c c''"

text \<open>\<open>n\<close> calls issued at once on the state \<open>s\<close>.\<close>

definition initial :: "nat \<Rightarrow> state \<Rightarrow> system" where
  "initial n s = \<lparr>tokenMutex = False, shared = s, callers = replicate n Calling\<rparr>"

text \<open>The mints made so far are the JWT signings among the calls; a mint is in flight
  while its caller holds the mutex.\<close>

fun isSignJWT :: "call \<Rightarrow> bool" where
  "isSignJWT (SignJWT cid) = True"
| "isSignJWT (Post url jwt) = False"
| "isSignJWT (Get url token) = False"

definition mintCount :: "state \<Rightarrow> nat" where
  "mintCount s = length (filter isSignJWT (calls s))"

fun isReturned :: "caller \<Rightarrow> bool" where
  "isReturned (Returned res) = True"
| "isReturned Calling = False"
| "isReturned Holding = False"

definition returnedCount :: "system \<Rightarrow> nat" where
  "returnedCount c = length (filter isReturned (callers c))"

definition holders :: "system \<Rightarrow> nat" where
  "holders c = length (filter (\<lambda>x. x = Holding) (callers c))"

text \<open>Every mint succeeds and is fresh: at the start the cache is expired for every
  caller, each caller's world mints a token whenever it has to, and a token minted in the
  world of one caller is still valid when any other caller reads its clock.\<close>

definition mintsSucceed :: "(nat \<Rightarrow> env) \<Rightarrow> flags \<Rightarrow> nat \<Rightarrow> state \<Rightarrow> bool" where
  "mintsSucceed envs fl n s0 =
     ((\<forall>i<n. \<not> nowToken (envs i) < installationTokenExpiry s0)
      \<and> (\<forall>i<n. \<forall>s. \<not> nowToken (envs i) < installationTokenExpiry s \<longrightarrow>
             \<not> isl (fst (getInstallationToken (envs i) fl s)))
      \<and> (\<forall>i<n. \<forall>j<n. nowToken (envs j) < nowMint (envs i) + Hour - 3 * Minute))"

section \<open>Fetching a file\<close>

text \<open>\<open>filepath.Ext\<close>: the suffix of the last element of the path from its last dot on,
  empty when that element has no dot.\<close>

definition Ext :: "string \<Rightarrow> string" where
  "Ext path =
     (let el = takeWhile (\<lambda>c. c \<noteq> CHR ''/'') (rev path)
      in if CHR ''.'' \<in> set el then CHR ''.'' # rev (takeWhile (\<lambda>c. c \<noteq> CHR ''.'') el)
         else [])"

text \<open>The content type of \<open>content\<close>, for a file with the extension \<open>ext\<close>.\<close>

definition identifyContentType :: "env \<Rightarrow> string \<Rightarrow> string \<Rightarrow> string" where
  "identifyContentType e ext content =
     (let contentType = TypeByExtension e ext
      in if contentType = []
         then (case Detect e content of
                 Some mtype \<Rightarrow> mtype
               | None \<Rightarrow> ''application/octet-stream'')
         else contentType)"

text \<open>\<open>dec\<close> is \<open>base64.StdEncoding.DecodeString\<close>: the decoded bytes, or the message of its
  error.\<close>

definition contentsURL :: "string \<Rightarrow> string \<Rightarrow> string \<Rightarrow> string" where
  "contentsURL owner repo path =
     ''https://api.github.com/repos/'' @ owner @ ''/'' @ repo @ ''/contents/'' @ path"

definition GetFileContent ::
  "(string \<Rightarrow> string + string) \<Rightarrow> env \<Rightarrow> string \<Rightarrow> string \<Rightarrow> string \<Rightarrow> string \<Rightarrow> state
     \<Rightarrow> (error + string \<times> string) \<times> state" where
  "GetFileContent dec e owner repo path token s =
     (let url = contentsURL owner repo path
      in case newRequest e ''GET'' url of
           Some m \<Rightarrow> (Inl (FailedToCreateRequest m), s)
         | None \<Rightarrow>
            (let s1 = s\<lparr>calls := calls s @ [Get url token]\<rparr>
             in case getContents e url token of
                  Inl m \<Rightarrow> (Inl (FailedToFetchFile m), s1)
                | Inr resp \<Rightarrow>
                    if StatusCode resp \<noteq> 200 then (Inl (FetchFileStatus (Status resp)), s1)
                    else (case Body resp of
                       Inl m \<Rightarrow> (Inl (FailedToParseFileData m), s1)
                     | Inr fd \<Rightarrow>
                        (let ext = Ext (fdName fd)
                         in if fdSize fd > 1024 * 1024
                            then (case newRequest e ''GET'' (fdDownloadURL fd) of
                                Some m \<Rightarrow> (Inl (FailedToCreateDownloadRequest m), s1)
                              | None \<Rightarrow>
                                 (let s2 = s1\<lparr>calls := calls s1 @ [Get (fdDownloadURL fd) token]\<rparr>
                                  in case getDownload e (fdDownloadURL fd) token of
                                       Inl m \<Rightarrow> (Inl (FailedToDownloadFile m), s2)
                                     | Inr resp2 \<Rightarrow>
                                        (case Body resp2 of
                                           Inl m \<Rightarrow> (Inl (FailedToReadDownloadResponse m), s2)
                                         | Inr content \<Rightarrow>
                                            (Inr (content, identifyContentType e ext content), s2))))
                            else (case dec (fdContent fd) of
                                Inl m \<Rightarrow> (Inl (FailedToDecodeFileContent m), s1)
                              | Inr content \<Rightarrow>
                                 (Inr (content, identifyContentType e ext content), s1))))))"

section \<open>The request handler\<close>

text \<open>\<open>http.Error\<close>: a plain-text reply with the message and the status code.\<close>

definition httpError :: "string \<Rightarrow> nat \<Rightarrow> Reply" where
  "httpError msg code =
     \<lparr>Code = code, ContentType = ''text/plain; charset=utf-8'', Content = msg @ [CHR 0x0A]\<rparr>"

text \<open>The loop over the elements of the file path: whether one of them starts with a dot.\<close>

fun dotElem :: "string list \<Rightarrow> bool" where
  "dotElem [] = False"
| "dotElem (elem # rest) =
     (if length elem > 0 \<and> elem ! 0 = CHR ''.'' then True else dotElem rest)"

definition requestHandler ::
  "(string \<Rightarrow> string + string) \<Rightarrow> env \<Rightarrow> flags \<Rightarrow> Request \<Rightarrow> state \<Rightarrow> Reply \<times> state" where
  "requestHandler dec e fl r s =
     (if ctxErr e then (httpError ''Service Unavailable'' 503, s)
      else case checkLimits e r s of
        (Some err, s1) \<Rightarrow> (httpError ''Too Many Requests'' 429, s1)
      | (None, s1) \<Rightarrow>
         if Method r \<noteq> ''GET'' then (httpError ''Method Not Allowed'' 405, s1)
         else (case getInstallationToken e fl s1 of
            (Inl err, s2) \<Rightarrow> (httpError ''Internal Server Error'' 500, s2)
          | (Inr tok, s2) \<Rightarrow>
             (let parts = SplitN (URLPath r) CHR ''/'' 4
              in if length parts < 4 then (httpError ''Bad Request'' 400, s2)
                 else let owner = parts ! 1; repo = parts ! 2; filePath = parts ! 3
                      in if dotElem (Split filePath CHR ''/'')
                         then (httpError ''Permission Denied'' 403, s2)
                         else (case GetFileContent dec e owner repo filePath tok s2 of
                                 (Inl err, s3) \<Rightarrow> (httpError ''File Not Found'' 404, s3)
                               | (Inr (content, contentType), s3) \<Rightarrow>
                                   (\<lparr>Code = 200, ContentType = contentType, Content = content\<rparr>,
                                    s3)))))"

text \<open>A request reaches the check of the file path when the context is live, the rate
  limits admit it, its method is GET, the token is there and its path has four parts.\<close>

definition reachesPathSafety :: "env \<Rightarrow> flags \<Rightarrow> Request \<Rightarrow> state \<Rightarrow> bool" where
  "reachesPathSafety e fl r s =
     (\<not> ctxErr e \<and> fst (checkLimits e r s) = None \<and> Method r = ''GET''
      \<and> \<not> isl (fst (getInstallationToken e fl (snd (checkLimits e r s))))
      \<and> \<not> length (SplitN (URLPath r) CHR ''/'' 4) < 4)"

text \<open>It reaches the fetch when, moreover, no element of the file path starts with a
  dot.\<close>

definition reachesFetch :: "env \<Rightarrow> flags \<Rightarrow> Request \<Rightarrow> state \<Rightarrow> bool" where
  "reachesFetch e fl r s =
     (reachesPathSafety e fl r s
      \<and> \<not> dotElem (Split (SplitN (URLPath r) CHR ''/'' 4 ! 3) CHR ''/''))"

section \<open>The global limiter\<close>






section \<open>Example inputs\<close>

text \<open>
  A world in which every upstream call succeeds: the quota is 5000 requests and resets in
  an hour, the file is the 13 bytes of scenario A of the spec, inline and base64-encoded,
  no extension is known and the sniffer answers plain text. The request comes from
  192.0.2.1 with no proxy header, and the process has just started: the global limiter is
  full and no token is cached. \<open>exampleDecode\<close> is the base64 decoder on the payloads the
  examples use.
\<close>

definition exampleDecode :: "string \<Rightarrow> string + string" where
  "exampleDecode s =
     (if s = ''SGVsbG8sIFdvcmxkIQ=='' then Inr ''Hello, World!''
      else Inl ''illegal base64 data at input byte 0'')"

definition exampleFile :: fileData where
  "exampleFile =
     \<lparr>fdContent = ''SGVsbG8sIFdvcmxkIQ=='', fdName = ''README.md'', fdEncoding = ''base64'',
      fdSize = 13, fdDownloadURL = ''https://raw.example/README.md''\<rparr>"

definition exampleEnv :: env where
  "exampleEnv =
     \<lparr>ctxErr = False,
      nowGlobal = 1000 * Second, nowSeen = 1000 * Second, nowClient = 1000 * Second,
      nowToken = 1000 * Second, nowMint = 1001 * Second, nowInit = 1000 * Second,
      signJWT = (\<lambda>cid. Inr ''jwt''),
      newRequest = (\<lambda>m url. None),
      postAccessTokens =
        (\<lambda>url jwt. Inr \<lparr>StatusCode = 201, Status = ''201 Created'', Body = Inr ''token-1''\<rparr>),
      getContents =
        (\<lambda>url token. Inr \<lparr>StatusCode = 200, Status = ''200 OK'', Body = Inr exampleFile\<rparr>),
      getDownload =
        (\<lambda>url token. Inr \<lparr>StatusCode = 200, Status = ''200 OK'', Body = Inr ''streamed''\<rparr>),
      getRateLimit =
        (\<lambda>token. Inr \<lparr>StatusCode = 200, Status = ''200 OK'',
                         Body = Inr \<lparr>Limit = 5000, Remaining = 4999, Reset = 4600\<rparr>\<rparr>),
      TypeByExtension = (\<lambda>ext. []),
      Detect = (\<lambda>content. Some ''text/plain; charset=utf-8'')\<rparr>"

definition exampleFlags :: flags where
  "exampleFlags = \<lparr>clientID = ''Iv1.0'', installationID = ''42''\<rparr>"

definition exampleState :: state where
  "exampleState =
     \<lparr>globalLimiter = NewLimiter 720000000 5000, clientLimiters = Map.empty,
      installationToken = [], installationTokenExpiry = 0, calls = []\<rparr>"

definition exampleRequest :: "string \<Rightarrow> string \<Rightarrow> Request" where
  "exampleRequest m p =
     \<lparr>Method = m, URLPath = p, HeaderGet = (\<lambda>key. []), RemoteAddr = ''192.0.2.1:54321''\<rparr>"

text \<open>A request that arrives through proxies, with the two headers and the peer address
  given.\<close>

definition proxiedRequest :: "string \<Rightarrow> string \<Rightarrow> string \<Rightarrow> Request" where
  "proxiedRequest realIP forwardedFor peer =
     \<lparr>Method = ''GET'', URLPath = ''/octocat/Hello-World/README.md'',
      HeaderGet = (\<lambda>key. if key = ''X-Real-IP'' then realIP
                         else if key = ''X-Forwarded-For'' then forwardedFor else []),
      RemoteAddr = peer\<rparr>"

text \<open>A bucket with no token left at the instant \<open>t\<close>, and the states in which the global
  bucket, or the bucket of the client 192.0.2.1, is such a bucket at the time of the
  example.\<close>

definition emptyBucket :: "duration \<Rightarrow> int \<Rightarrow> time \<Rightarrow> Limiter" where
  "emptyBucket d b t = \<lparr>refillInterval = d, capacity = b, tokens = 0, lastRefill = t\<rparr>"

definition globalExhausted :: state where
  "globalExhausted =
     exampleState\<lparr>globalLimiter := emptyBucket 720000000 5000 (1000 * Second)\<rparr>"

definition clientExhausted :: state where
  "clientExhausted =
     exampleState\<lparr>clientLimiters :=
       [''192.0.2.1'' \<mapsto> \<lparr>limiter = emptyBucket ClientRate ClientBurst (1000 * Second),
                          lastSeen = 999 * Second\<rparr>]\<rparr>"

text \<open>The worlds in which the signing of the JWT fails, and in which GitHub refuses the
  exchange (scenario D of the spec); a state whose cached token is still valid at the
  time of the example, and one whose cached token has expired.\<close>

definition jwtFails :: env where
  "jwtFails = exampleEnv\<lparr>signJWT := (\<lambda>cid. Inl ''key is invalid'')\<rparr>"

definition mintFails :: env where
  "mintFails =
     exampleEnv\<lparr>postAccessTokens :=
       (\<lambda>url jwt. Inr \<lparr>StatusCode = 401, Status = ''401 Unauthorized'', Body = Inl []\<rparr>)\<rparr>"

definition cachedState :: state where
  "cachedState =
     exampleState\<lparr>installationToken := ''token-0'', installationTokenExpiry := 2000 * Second\<rparr>"

definition expiredState :: state where
  "expiredState =
     exampleState\<lparr>installationToken := ''token-0'', installationTokenExpiry := 900 * Second\<rparr>"

text \<open>The worlds in which the server is shutting down, and in which GitHub does not have
  the file; the state after the example request has passed the rate limits, and the
  state after a token has been minted for it.\<close>

definition shuttingDown :: env where
  "shuttingDown = exampleEnv\<lparr>ctxErr := True\<rparr>"

definition notFound :: env where
  "notFound =
     exampleEnv\<lparr>getContents :=
       (\<lambda>url token. Inr \<lparr>StatusCode = 404, Status = ''404 Not Found'', Body = Inl []\<rparr>)\<rparr>"

definition admittedState :: state where
  "admittedState =
     exampleState
       \<lparr>globalLimiter := \<lparr>refillInterval = 720000000, capacity = 5000, tokens = 4999,
                           lastRefill = 1000 * Second\<rparr>,
        clientLimiters :=
          [''192.0.2.1'' \<mapsto>
             \<lparr>limiter = \<lparr>refillInterval = Second, capacity = 8, tokens = 7,
                          lastRefill = 1000 * Second\<rparr>,
              lastSeen = 1000 * Second\<rparr>]\<rparr>"

definition mintedState :: state where
  "mintedState =
     admittedState
       \<lparr>installationToken := ''token-1'', installationTokenExpiry := 4421 * Second,
        calls := [SignJWT ''Iv1.0'',
                  Post ''https://api.github.com/app/installations/42/access_tokens'' ''jwt'']\<rparr>"

text \<open>The worlds in which GitHub reports a file of two million bytes (scenario B of the
  spec), in which the inline payload is not base64, and in which the connection to GitHub
  fails.\<close>

definition bigFile :: env where
  "bigFile =
     exampleEnv\<lparr>getContents :=
       (\<lambda>url token. Inr \<lparr>StatusCode = 200, Status = ''200 OK'',
                            Body = Inr (exampleFile\<lparr>fdContent := [], fdSize := 2000000\<rparr>)\<rparr>)\<rparr>"

definition badPayload :: env where
  "badPayload =
     exampleEnv\<lparr>getContents :=
       (\<lambda>url token. Inr \<lparr>StatusCode = 200, Status = ''200 OK'',
                            Body = Inr (exampleFile\<lparr>fdContent := ''!!!!''\<rparr>)\<rparr>)\<rparr>"

definition unreachable :: env where
  "unreachable = exampleEnv\<lparr>getContents := (\<lambda>url token. Inl ''connection refused'')\<rparr>"

text \<open>The world in which GitHub reports a quota of zero requests.\<close>

definition zeroQuota :: env where
  "zeroQuota =
     exampleEnv\<lparr>getRateLimit :=
       (\<lambda>token. Inr \<lparr>StatusCode = 200, Status = ''200 OK'',
                        Body = Inr \<lparr>Limit = 0, Remaining = 0, Reset = 4600\<rparr>\<rparr>)\<rparr>"

text \<open>Two concurrent calls on the expired cache: the system after both have returned
  when GitHub issues a token, and when GitHub refuses both exchanges.\<close>

definition oneMinted :: system where
  "oneMinted =
     \<lparr>tokenMutex = False,
      shared = expiredState
        \<lparr>installationToken := ''token-1'', installationTokenExpiry := 4421 * Second,
         calls := [SignJWT ''Iv1.0'',
                   Post ''https://api.github.com/app/installations/42/access_tokens'' ''jwt'']\<rparr>,
      callers = [Returned (Inr ''token-1''), Returned (Inr ''token-1'')]\<rparr>"

definition bothFailed :: system where
  "bothFailed =
     \<lparr>tokenMutex = False,
      shared = expiredState
        \<lparr>calls := [SignJWT ''Iv1.0'',
                   Post ''https://api.github.com/app/installations/42/access_tokens'' ''jwt'',
                   SignJWT ''Iv1.0'',
                   Post ''https://api.github.com/app/installations/42/access_tokens'' ''jwt'']\<rparr>,
      callers =
        [Returned (Inl (FailedToGetInstallationToken (InstallationTokenStatus ''401 Unauthorized''))),
         Returned (Inl (FailedToGetInstallationToken (InstallationTokenStatus ''401 Unauthorized'')))]\<rparr>"

section \<open>Evaluation and library facts\<close>

lemmas example_defs = exampleDecode_def exampleFile_def exampleEnv_def exampleFlags_def
  exampleState_def exampleRequest_def proxiedRequest_def emptyBucket_def globalExhausted_def
  clientExhausted_def jwtFails_def mintFails_def cachedState_def expiredState_def
  shuttingDown_def notFound_def bigFile_def badPayload_def unreachable_def zeroQuota_def


lemmas time_defs = Second_def Minute_def Hour_def minDuration_def maxDuration_def Sub_def
  Add_def Before_def Unix_def

lemmas limits_defs = NewLimiter_def refill_def Allow_def ClientRate_def ClientBurst_def
  getClientIP_def getClientLimiter_def putClientLimiter_def checkLimits_def LastIndex_def
  signed_divide_int_def

lemmas token_defs = GenerateJWT_def GetInstallationToken_def getInstallationToken_def

lemmas fetch_defs = Ext_def identifyContentType_def contentsURL_def GetFileContent_def

lemma SplitN_numeral:
  "SplitN s sep 1 = [s]"
  "SplitN [] sep 2 = [[]]"
  "SplitN [] sep 3 = [[]]"
  "SplitN [] sep 4 = [[]]"
  "SplitN (c # cs) sep 2 =
     (if c = sep then [] # SplitN cs sep 1 else consFirst c (SplitN cs sep 2))"
  "SplitN (c # cs) sep 3 =
     (if c = sep then [] # SplitN cs sep 2 else consFirst c (SplitN cs sep 3))"
  "SplitN (c # cs) sep 4 =
     (if c = sep then [] # SplitN cs sep 3 else consFirst c (SplitN cs sep 4))"
  by (simp_all add: eval_nat_numeral)

lemma nth_numeral:
  "(a # b # xs) ! 1 = b" "(a # b # c # xs) ! 2 = c" "(a # b # c # d # xs) ! 3 = d"
  by (simp_all add: eval_nat_numeral)







lemma dotElem_iff: "dotElem xs = (\<exists>elem \<in> set xs. elem \<noteq> [] \<and> hd elem = CHR ''.'')"
  by (induction xs) (auto simp: hd_conv_nth)

lemma SplitN_not_Nil: "0 < n \<Longrightarrow> SplitN s sep n \<noteq> []"
  by (induction s sep n rule: SplitN.induct) (auto elim: consFirst.elims)

lemma length_consFirst: "xs \<noteq> [] \<Longrightarrow> length (consFirst c xs) = length xs"
  by (cases xs) auto

lemma length_SplitN: "length (SplitN s sep n) \<le> n"
proof (induction s sep n rule: SplitN.induct)
  case (4 c cs sep n)
  then show ?case
    using SplitN_not_Nil [of "Suc (Suc n)" cs sep] by (auto simp: length_consFirst)
qed auto

lemma Split_consFirst:
  "c \<noteq> sep \<Longrightarrow> xs \<noteq> [] \<Longrightarrow>
     butlast (consFirst c xs) @ Split (last (consFirst c xs)) sep
       = consFirst c (butlast xs @ Split (last xs) sep)"
proof (cases xs)
  case Nil
  assume "xs \<noteq> []"
  with Nil show ?thesis by simp
next
  case (Cons x ys)
  assume c: "c \<noteq> sep"
  show ?thesis
  proof (cases ys)
    case Nil
    with Cons c show ?thesis by simp
  next
    case (Cons y zs)
    with \<open>xs = x # ys\<close> show ?thesis by simp
  qed
qed

lemma Split_SplitN:
  "0 < n \<Longrightarrow> Split s sep = butlast (SplitN s sep n) @ Split (last (SplitN s sep n)) sep"
proof (induction s sep n rule: SplitN.induct)
  case (4 c cs sep n)
  show ?case
  proof (cases "c = sep")
    case True
    with 4 show ?thesis
      using SplitN_not_Nil [of "Suc n" cs sep] by simp
  next
    case False
    with 4 have "Split cs sep = butlast (SplitN cs sep (Suc (Suc n)))
        @ Split (last (SplitN cs sep (Suc (Suc n)))) sep"
      by simp
    with False show ?thesis
      using SplitN_not_Nil [of "Suc (Suc n)" cs sep]
      by (simp add: Split_consFirst)
  qed
qed auto

lemma Split_rest_subset:
  assumes "\<not> length (SplitN s sep 4) < 4"
  shows "set (Split (SplitN s sep 4 ! 3) sep) \<subseteq> set (Split s sep)"
proof -
  from assms length_SplitN [of s sep 4] have len: "length (SplitN s sep 4) = 4"
    by simp
  then have "SplitN s sep 4 \<noteq> []" by auto
  then have "last (SplitN s sep 4) = SplitN s sep 4 ! 3"
    using len by (simp add: last_conv_nth)
  with Split_SplitN [of 4 s sep] show ?thesis
    by auto
qed


lemma length_SplitN_count:
  "0 < n \<Longrightarrow> length (SplitN s sep n) = min n (Suc (length (filter (\<lambda>c. c = sep) s)))"
proof (induction s sep n rule: SplitN.induct)
  case (4 c cs sep n)
  show ?case
  proof (cases "c = sep")
    case True
    with 4 show ?thesis by simp
  next
    case False
    with 4 SplitN_not_Nil [of "Suc (Suc n)" cs sep] show ?thesis
      by (simp add: length_consFirst)
  qed
qed simp_all

lemma parts_count:
  "(length (SplitN s sep 4) < 4) = (length (filter (\<lambda>c. c = sep) s) < 3)"
  using length_SplitN_count [of 4 s sep] by auto






section \<open>The client key\<close>



section \<open>Admission\<close>

lemma getClientLimiter_global [simp]:
  "globalLimiter (snd (getClientLimiter e ip s)) = globalLimiter s"
  by (simp add: getClientLimiter_def Let_def split: option.splits)

lemma putClientLimiter_global [simp]:
  "globalLimiter (putClientLimiter ip l s) = globalLimiter s"
  by (simp add: putClientLimiter_def split: option.splits)

lemma getClientLimiter_fst_global [simp]:
  "fst (getClientLimiter e ip (s\<lparr>globalLimiter := g\<rparr>)) = fst (getClientLimiter e ip s)"
  by (simp add: getClientLimiter_def Let_def split: option.splits)




section \<open>The cached token\<close>

lemma GetInstallationToken_expiry:
  "GetInstallationToken e fl jwt s = (Inr (tok, expiry), s') \<Longrightarrow> expiry = nowMint e + Hour"
  by (auto simp: GetInstallationToken_def Let_def Add_def
      split: option.splits sum.splits if_splits)

lemma GetInstallationToken_frame:
  "GetInstallationToken e fl jwt s = (res, s') \<Longrightarrow>
     s' = s\<lparr>calls := calls s'\<rparr>
     \<and> (calls s' = calls s \<or> (\<exists>url. calls s' = calls s @ [Post url jwt]))"
  by (auto simp: GetInstallationToken_def Let_def
      split: option.splits sum.splits if_splits)

text \<open>What a call that finds the cache invalid does, by the outcome of the signing and of
  the exchange.\<close>

lemma getInstallationToken_invalid:
  assumes "\<not> nowToken e < installationTokenExpiry s"
  shows "getInstallationToken e fl s =
    (case signJWT e (clientID fl) of
       Inl m \<Rightarrow> (Inl (FailedToGenerateJWT m), s\<lparr>calls := calls s @ [SignJWT (clientID fl)]\<rparr>)
     | Inr jwt \<Rightarrow>
        (case GetInstallationToken e fl jwt (s\<lparr>calls := calls s @ [SignJWT (clientID fl)]\<rparr>) of
           (Inl err, s2) \<Rightarrow> (Inl (FailedToGetInstallationToken err), s2)
         | (Inr (token, expiry), s2) \<Rightarrow>
             (Inr token, s2\<lparr>installationToken := token,
                            installationTokenExpiry := expiry - 3 * Minute\<rparr>)))"
  using assms
  by (simp add: getInstallationToken_def GenerateJWT_def Before_def Add_def Let_def
      split: sum.splits prod.splits)

lemma getInstallationToken_invalid_calls:
  assumes "\<not> nowToken e < installationTokenExpiry s"
  shows "\<exists>cs. calls (snd (getInstallationToken e fl s)) = calls s @ SignJWT (clientID fl) # cs
           \<and> (cs = [] \<or> (\<exists>url jwt. cs = [Post url jwt]))"
proof (cases "signJWT e (clientID fl)")
  case (Inl m)
  then show ?thesis
    by (simp add: getInstallationToken_invalid [OF assms])
next
  case (Inr jwt)
  obtain res s2 where g: "GetInstallationToken e fl jwt
      (s\<lparr>calls := calls s @ [SignJWT (clientID fl)]\<rparr>) = (res, s2)"
    by (cases "GetInstallationToken e fl jwt (s\<lparr>calls := calls s @ [SignJWT (clientID fl)]\<rparr>)")
  from GetInstallationToken_frame [OF g]
  have "calls s2 = calls s @ [SignJWT (clientID fl)]
      \<or> (\<exists>url. calls s2 = calls s @ [SignJWT (clientID fl), Post url jwt])"
    by auto
  with Inr g show ?thesis
    by (cases res) (auto simp: getInstallationToken_invalid [OF assms])
qed

lemma getInstallationToken_valid:
  "nowToken e < installationTokenExpiry s \<Longrightarrow>
     getInstallationToken e fl s = (Inr (installationToken s), s)"
  by (simp add: getInstallationToken_def Before_def)




text \<open>
  C8. A call of \<open>getInstallationToken\<close> that returns an error had found the cache expired,
  and it leaves the cached token and the cached expiry as they were: only the list of
  calls made has grown. The error wraps the error of the signing or of the exchange. The
  call has signed once and exchanged at most once, so nothing was tried again. Every call
  after it, and every call that finds the cache expired, signs a JWT again.
\<close>

theorem getInstallationToken_mint_failure:
  assumes "getInstallationToken e fl s = (Inl err, s')"
  shows "\<not> nowToken e < installationTokenExpiry s
    \<and> installationToken s' = installationToken s
    \<and> installationTokenExpiry s' = installationTokenExpiry s
    \<and> s' = s\<lparr>calls := calls s'\<rparr>
    \<and> ((\<exists>m. signJWT e (clientID fl) = Inl m \<and> err = FailedToGenerateJWT m)
        \<or> (\<exists>jwt cause. signJWT e (clientID fl) = Inr jwt
              \<and> fst (GetInstallationToken e fl jwt (snd (GenerateJWT e (clientID fl) s)))
                  = Inl cause
              \<and> err = FailedToGetInstallationToken cause))
    \<and> (\<exists>cs. calls s' = calls s @ SignJWT (clientID fl) # cs
          \<and> (cs = [] \<or> (\<exists>url jwt. cs = [Post url jwt])))
    \<and> (\<forall>e'. nowToken e \<le> nowToken e' \<or> \<not> nowToken e' < installationTokenExpiry s' \<longrightarrow>
          (\<exists>cs. calls (snd (getInstallationToken e' fl s'))
                  = calls s' @ SignJWT (clientID fl) # cs))"
proof -
  have inv: "\<not> nowToken e < installationTokenExpiry s"
    using assms getInstallationToken_valid [of e s fl] by auto
  let ?s1 = "s\<lparr>calls := calls s @ [SignJWT (clientID fl)]\<rparr>"
  have s1: "snd (GenerateJWT e (clientID fl) s) = ?s1"
    by (simp add: GenerateJWT_def)
  have frame: "s' = s\<lparr>calls := calls s'\<rparr>"
    and cause: "(\<exists>m. signJWT e (clientID fl) = Inl m \<and> err = FailedToGenerateJWT m)
        \<or> (\<exists>jwt cause. signJWT e (clientID fl) = Inr jwt
              \<and> fst (GetInstallationToken e fl jwt ?s1) = Inl cause
              \<and> err = FailedToGetInstallationToken cause)"
  proof -
    show "s' = s\<lparr>calls := calls s'\<rparr>"
    proof (cases "signJWT e (clientID fl)")
      case (Inl m)
      with assms show ?thesis
        by (auto simp: getInstallationToken_invalid [OF inv])
    next
      case (Inr jwt)
      obtain res s2 where g: "GetInstallationToken e fl jwt ?s1 = (res, s2)"
        by (cases "GetInstallationToken e fl jwt ?s1")
      from GetInstallationToken_frame [OF g] have "s2 = s\<lparr>calls := calls s2\<rparr>"
        by simp
      moreover from assms Inr g have "s' = s2"
        by (cases res) (auto simp: getInstallationToken_invalid [OF inv])
      ultimately show ?thesis by simp
    qed
    show "(\<exists>m. signJWT e (clientID fl) = Inl m \<and> err = FailedToGenerateJWT m)
        \<or> (\<exists>jwt cause. signJWT e (clientID fl) = Inr jwt
              \<and> fst (GetInstallationToken e fl jwt ?s1) = Inl cause
              \<and> err = FailedToGetInstallationToken cause)"
    proof (cases "signJWT e (clientID fl)")
      case (Inl m)
      with assms show ?thesis
        by (auto simp: getInstallationToken_invalid [OF inv])
    next
      case (Inr jwt)
      obtain res s2 where g: "GetInstallationToken e fl jwt ?s1 = (res, s2)"
        by (cases "GetInstallationToken e fl jwt ?s1")
      from assms Inr g show ?thesis
        by (cases res) (auto simp: getInstallationToken_invalid [OF inv])
    qed
  qed
  from frame have tok: "installationToken s' = installationToken s"
    and exp: "installationTokenExpiry s' = installationTokenExpiry s"
    by (metis state.select_convs(3) state.surjective state.update_convs(5),
        metis state.select_convs(4) state.surjective state.update_convs(5))
  have once: "\<exists>cs. calls s' = calls s @ SignJWT (clientID fl) # cs
          \<and> (cs = [] \<or> (\<exists>url jwt. cs = [Post url jwt]))"
    using getInstallationToken_invalid_calls [OF inv, of fl] assms by simp
  have again: "\<exists>cs. calls (snd (getInstallationToken e' fl s'))
                  = calls s' @ SignJWT (clientID fl) # cs"
    if "nowToken e \<le> nowToken e' \<or> \<not> nowToken e' < installationTokenExpiry s'" for e'
  proof -
    from that inv exp have "\<not> nowToken e' < installationTokenExpiry s'"
      by auto
    from getInstallationToken_invalid_calls [OF this, of fl] show ?thesis
      by blast
  qed
  from inv tok exp frame cause once again s1 show ?thesis
    by simp
qed

theorem getInstallationToken_mint_failure_witness:
  "getInstallationToken jwtFails exampleFlags expiredState
     = (Inl (FailedToGenerateJWT ''key is invalid''), expiredState\<lparr>calls := [SignJWT ''Iv1.0'']\<rparr>)
   \<and> fst (getInstallationToken mintFails exampleFlags expiredState)
     = Inl (FailedToGetInstallationToken (InstallationTokenStatus ''401 Unauthorized''))
   \<and> installationToken (snd (getInstallationToken mintFails exampleFlags expiredState))
     = ''token-0''
   \<and> installationTokenExpiry (snd (getInstallationToken mintFails exampleFlags expiredState))
     = 900 * Second
   \<and> calls (snd (getInstallationToken mintFails exampleFlags expiredState))
     = [SignJWT ''Iv1.0'',
        Post ''https://api.github.com/app/installations/42/access_tokens'' ''jwt'']
   \<and> (\<exists>cs. calls (snd (getInstallationToken mintFails exampleFlags
                 (snd (getInstallationToken mintFails exampleFlags expiredState))))
         = [SignJWT ''Iv1.0'',
            Post ''https://api.github.com/app/installations/42/access_tokens'' ''jwt'',
            SignJWT ''Iv1.0''] @ cs)"
proof -
  let ?j = "getInstallationToken jwtFails exampleFlags expiredState"
  let ?m = "getInstallationToken mintFails exampleFlags expiredState"
  have j: "?j = (Inl (FailedToGenerateJWT ''key is invalid''),
      expiredState\<lparr>calls := [SignJWT ''Iv1.0'']\<rparr>)"
    by (simp add: example_defs time_defs token_defs Let_def)
  have f: "fst ?m
      = Inl (FailedToGetInstallationToken (InstallationTokenStatus ''401 Unauthorized''))"
    by (simp add: example_defs time_defs token_defs Let_def)
  then have m: "?m
      = (Inl (FailedToGetInstallationToken (InstallationTokenStatus ''401 Unauthorized'')),
         snd ?m)"
    by (metis prod.collapse)
  have c: "calls (snd ?m)
      = [SignJWT ''Iv1.0'',
         Post ''https://api.github.com/app/installations/42/access_tokens'' ''jwt'']"
    by (simp add: example_defs time_defs token_defs Let_def)
  note T = getInstallationToken_mint_failure [OF m]
  from T have t: "installationToken (snd ?m) = installationToken expiredState"
    and x: "installationTokenExpiry (snd ?m) = installationTokenExpiry expiredState"
    by blast+
  from T have "\<exists>cs. calls (snd (getInstallationToken mintFails exampleFlags (snd ?m)))
      = calls (snd ?m) @ SignJWT (clientID exampleFlags) # cs"
    by blast
  with c have again: "\<exists>cs. calls (snd (getInstallationToken mintFails exampleFlags (snd ?m)))
      = [SignJWT ''Iv1.0'',
         Post ''https://api.github.com/app/installations/42/access_tokens'' ''jwt'',
         SignJWT ''Iv1.0''] @ cs"
    by (simp add: example_defs)
  have "installationToken expiredState = ''token-0''"
    "installationTokenExpiry expiredState = 900 * Second"
    by (simp_all add: example_defs)
  with j f c t x again show ?thesis
    by simp
qed

section \<open>The order of the pipeline\<close>

lemma checkLimits_frame:
  "installationToken (snd (checkLimits e r s)) = installationToken s
   \<and> installationTokenExpiry (snd (checkLimits e r s)) = installationTokenExpiry s
   \<and> calls (snd (checkLimits e r s)) = calls s"
  by (simp add: checkLimits_def getClientLimiter_def putClientLimiter_def Let_def split_beta
      split: option.splits)

lemma getInstallationToken_frame:
  "globalLimiter (snd (getInstallationToken e fl s)) = globalLimiter s
   \<and> clientLimiters (snd (getInstallationToken e fl s)) = clientLimiters s
   \<and> (\<exists>cs. calls (snd (getInstallationToken e fl s)) = calls s @ cs
         \<and> (cs = [] \<or> cs = [SignJWT (clientID fl)]
             \<or> (\<exists>url jwt. cs = [SignJWT (clientID fl), Post url jwt])))"
proof (cases "nowToken e < installationTokenExpiry s")
  case True
  then show ?thesis
    by (simp add: getInstallationToken_valid)
next
  case False
  from getInstallationToken_invalid_calls [OF False, of fl]
  have c: "\<exists>cs. calls (snd (getInstallationToken e fl s)) = calls s @ cs
         \<and> (cs = [] \<or> cs = [SignJWT (clientID fl)]
             \<or> (\<exists>url jwt. cs = [SignJWT (clientID fl), Post url jwt]))"
    by auto
  let ?s1 = "s\<lparr>calls := calls s @ [SignJWT (clientID fl)]\<rparr>"
  have "globalLimiter (snd (getInstallationToken e fl s)) = globalLimiter s
      \<and> clientLimiters (snd (getInstallationToken e fl s)) = clientLimiters s"
  proof (cases "signJWT e (clientID fl)")
    case (Inl m)
    then show ?thesis
      by (simp add: getInstallationToken_invalid [OF False])
  next
    case (Inr jwt)
    obtain res s2 where g: "GetInstallationToken e fl jwt ?s1 = (res, s2)"
      by (cases "GetInstallationToken e fl jwt ?s1")
    from GetInstallationToken_frame [OF g] have "s2 = s\<lparr>calls := calls s2\<rparr>"
      by simp
    then have "globalLimiter s2 = globalLimiter s \<and> clientLimiters s2 = clientLimiters s"
      by (metis state.select_convs(1,2) state.surjective state.update_convs(5))
    with Inr g show ?thesis
      by (cases res) (auto simp: getInstallationToken_invalid [OF False])
  qed
  with c show ?thesis by simp
qed

text \<open>
  C1. The handler makes its checks in one order, and the first that fails decides the
  reply and ends the request in the state that check left: a cancelled context gives 503
  and leaves the state untouched; otherwise a rate limit gives 429; otherwise a method
  other than GET gives 405; otherwise a failure to get the installation token gives 500;
  otherwise a path that splits into fewer than four parts at its slashes, one with
  fewer than three slashes, gives 400; otherwise a file path with an
  element that starts with a dot gives 403; otherwise a failed fetch gives 404, and a
  fetch that succeeds 200. The rate limits touch neither the cached token nor the calls
  made, so up to the 405 nothing was sent upstream; getting the token leaves the
  limiters as the rate limits left them, and signs at most once and exchanges at most
  once.
\<close>

theorem requestHandler_order:
  assumes "requestHandler dec e fl r s = (rep, s')"
    and "checkLimits e r s = (lm, s1)"
    and "getInstallationToken e fl s1 = (tk, s2)"
    and "parts = SplitN (URLPath r) CHR ''/'' 4"
    and "GetFileContent dec e (parts ! 1) (parts ! 2) (parts ! 3) (projr tk) s2 = (fc, s3)"
  shows
   "(ctxErr e \<longrightarrow> Code rep = 503 \<and> s' = s)
  \<and> (\<not> ctxErr e \<and> lm \<noteq> None \<longrightarrow> Code rep = 429 \<and> s' = s1)
  \<and> (\<not> ctxErr e \<and> lm = None \<and> Method r \<noteq> ''GET'' \<longrightarrow> Code rep = 405 \<and> s' = s1)
  \<and> (\<not> ctxErr e \<and> lm = None \<and> Method r = ''GET'' \<and> isl tk \<longrightarrow> Code rep = 500 \<and> s' = s2)
  \<and> (\<not> ctxErr e \<and> lm = None \<and> Method r = ''GET'' \<and> \<not> isl tk \<and> length parts < 4 \<longrightarrow>
        Code rep = 400 \<and> s' = s2)
  \<and> (\<not> ctxErr e \<and> lm = None \<and> Method r = ''GET'' \<and> \<not> isl tk \<and> \<not> length parts < 4
       \<and> dotElem (Split (parts ! 3) CHR ''/'') \<longrightarrow> Code rep = 403 \<and> s' = s2)
  \<and> (\<not> ctxErr e \<and> lm = None \<and> Method r = ''GET'' \<and> \<not> isl tk \<and> \<not> length parts < 4
       \<and> \<not> dotElem (Split (parts ! 3) CHR ''/'') \<and> isl fc \<longrightarrow> Code rep = 404 \<and> s' = s3)
  \<and> (\<not> ctxErr e \<and> lm = None \<and> Method r = ''GET'' \<and> \<not> isl tk \<and> \<not> length parts < 4
       \<and> \<not> dotElem (Split (parts ! 3) CHR ''/'') \<and> \<not> isl fc \<longrightarrow> Code rep = 200 \<and> s' = s3)
  \<and> (length parts < 4) = (length (filter (\<lambda>c. c = CHR ''/'') (URLPath r)) < 3)
  \<and> installationToken s1 = installationToken s
  \<and> installationTokenExpiry s1 = installationTokenExpiry s
  \<and> calls s1 = calls s
  \<and> globalLimiter s2 = globalLimiter s1
  \<and> clientLimiters s2 = clientLimiters s1
  \<and> (\<exists>cs. calls s2 = calls s1 @ cs
        \<and> (cs = [] \<or> cs = [SignJWT (clientID fl)]
            \<or> (\<exists>url jwt. cs = [SignJWT (clientID fl), Post url jwt])))"
proof -
  have c503: "ctxErr e \<longrightarrow> Code rep = 503 \<and> s' = s"
    using assms(1) by (auto simp: requestHandler_def httpError_def)
  have c429: "\<not> ctxErr e \<and> lm \<noteq> None \<longrightarrow> Code rep = 429 \<and> s' = s1"
    using assms(1,2) by (auto simp: requestHandler_def httpError_def)
  have c405: "\<not> ctxErr e \<and> lm = None \<and> Method r \<noteq> ''GET'' \<longrightarrow> Code rep = 405 \<and> s' = s1"
    using assms(1,2) by (auto simp: requestHandler_def httpError_def)
  have c500: "\<not> ctxErr e \<and> lm = None \<and> Method r = ''GET'' \<and> isl tk \<longrightarrow>
      Code rep = 500 \<and> s' = s2"
    using assms(1,2,3) by (auto simp: requestHandler_def httpError_def isl_def)
  have c400: "\<not> ctxErr e \<and> lm = None \<and> Method r = ''GET'' \<and> \<not> isl tk \<and> length parts < 4 \<longrightarrow>
        Code rep = 400 \<and> s' = s2"
    using assms(1,2,3,4)
    by (cases tk) (auto simp: requestHandler_def httpError_def Let_def)
  have c403: "\<not> ctxErr e \<and> lm = None \<and> Method r = ''GET'' \<and> \<not> isl tk \<and> \<not> length parts < 4
       \<and> dotElem (Split (parts ! 3) CHR ''/'') \<longrightarrow> Code rep = 403 \<and> s' = s2"
    using assms(1,2,3,4)
    by (cases tk) (auto simp: requestHandler_def httpError_def Let_def)
  have c404: "\<not> ctxErr e \<and> lm = None \<and> Method r = ''GET'' \<and> \<not> isl tk \<and> \<not> length parts < 4
       \<and> \<not> dotElem (Split (parts ! 3) CHR ''/'') \<and> isl fc \<longrightarrow> Code rep = 404 \<and> s' = s3"
    using assms
    by (cases tk) (auto simp: requestHandler_def httpError_def Let_def isl_def)
  have c200: "\<not> ctxErr e \<and> lm = None \<and> Method r = ''GET'' \<and> \<not> isl tk \<and> \<not> length parts < 4
       \<and> \<not> dotElem (Split (parts ! 3) CHR ''/'') \<and> \<not> isl fc \<longrightarrow> Code rep = 200 \<and> s' = s3"
    using assms
    by (cases tk; cases fc) (auto simp: requestHandler_def httpError_def Let_def split: prod.splits)
  have f1: "installationToken s1 = installationToken s
      \<and> installationTokenExpiry s1 = installationTokenExpiry s \<and> calls s1 = calls s"
    using checkLimits_frame [of e r s] assms(2) by simp
  have f2: "globalLimiter s2 = globalLimiter s1 \<and> clientLimiters s2 = clientLimiters s1
      \<and> (\<exists>cs. calls s2 = calls s1 @ cs
        \<and> (cs = [] \<or> cs = [SignJWT (clientID fl)]
            \<or> (\<exists>url jwt. cs = [SignJWT (clientID fl), Post url jwt])))"
    using getInstallationToken_frame [of e fl s1] assms(3) by simp
  have p: "(length parts < 4) = (length (filter (\<lambda>c. c = CHR ''/'') (URLPath r)) < 3)"
    using assms(4) by (simp add: parts_count)
  from c503 c429 c405 c500 c400 c403 c404 c200 p f1 f2 show ?thesis
    by (intro conjI) (simp_all only:)
qed

lemma example_admitted:
  assumes "nowGlobal e = 1000 * Second" and "nowSeen e = 1000 * Second"
    and "nowClient e = 1000 * Second"
  shows "checkLimits e (exampleRequest m p) exampleState = (None, admittedState)"
  using assms by (simp add: admittedState_def example_defs time_defs limits_defs Let_def)

lemma example_minted:
  "getInstallationToken exampleEnv exampleFlags admittedState = (Inr ''token-1'', mintedState)"
  by (simp add: admittedState_def mintedState_def example_defs time_defs token_defs Let_def)

lemma example_not_minted:
  "getInstallationToken mintFails exampleFlags admittedState
     = (Inl (FailedToGetInstallationToken (InstallationTokenStatus ''401 Unauthorized'')),
        admittedState\<lparr>calls := [SignJWT ''Iv1.0'',
           Post ''https://api.github.com/app/installations/42/access_tokens'' ''jwt'']\<rparr>)"
  by (simp add: admittedState_def example_defs time_defs token_defs Let_def)

lemma example_minted_notFound:
  "getInstallationToken notFound exampleFlags admittedState = (Inr ''token-1'', mintedState)"
  by (simp add: admittedState_def mintedState_def example_defs time_defs
      token_defs Let_def)

lemma example_fetched:
  "fst (GetFileContent exampleDecode exampleEnv ''octocat'' ''Hello-World'' ''README.md''
     ''token-1'' mintedState) = Inr (''Hello, World!'', ''text/plain; charset=utf-8'')"
  by (simp add: example_defs fetch_defs Let_def)

lemma example_not_fetched:
  "fst (GetFileContent exampleDecode notFound ''octocat'' ''Hello-World'' ''README.md''
     ''token-1'' mintedState) = Inl (FetchFileStatus ''404 Not Found'')"
  by (simp add: example_defs fetch_defs Let_def)

lemma example_paths:
  "SplitN ''/octocat/Hello-World/README.md'' CHR ''/'' 4
     = [[], ''octocat'', ''Hello-World'', ''README.md'']"
  "SplitN ''/owner/repo/.git/config'' CHR ''/'' 4 = [[], ''owner'', ''repo'', ''.git/config'']"
  "SplitN ''/octocat/.git'' CHR ''/'' 4 = [[], ''octocat'', ''.git'']"
  "Split ''README.md'' CHR ''/'' = [''README.md'']"
  "Split ''.git/config'' CHR ''/'' = [''.git'', ''config'']"
  by (simp_all add: SplitN_numeral)


theorem requestHandler_order_witness:
  "Code (fst (requestHandler exampleDecode shuttingDown exampleFlags
            (exampleRequest ''GET'' ''/octocat/Hello-World/README.md'') exampleState)) = 503
   \<and> snd (requestHandler exampleDecode shuttingDown exampleFlags
            (exampleRequest ''GET'' ''/octocat/Hello-World/README.md'') exampleState) = exampleState
   \<and> Code (fst (requestHandler exampleDecode exampleEnv exampleFlags
            (exampleRequest ''POST'' ''/octocat'') clientExhausted)) = 429
   \<and> calls (snd (requestHandler exampleDecode exampleEnv exampleFlags
            (exampleRequest ''POST'' ''/octocat'') clientExhausted)) = []
   \<and> requestHandler exampleDecode mintFails exampleFlags
            (exampleRequest ''POST'' ''/octocat'') exampleState
      = (httpError ''Method Not Allowed'' 405, admittedState)
   \<and> Code (fst (requestHandler exampleDecode mintFails exampleFlags
            (exampleRequest ''GET'' ''/octocat'') exampleState)) = 500
   \<and> snd (requestHandler exampleDecode mintFails exampleFlags
            (exampleRequest ''GET'' ''/octocat'') exampleState)
      = admittedState\<lparr>calls := [SignJWT ''Iv1.0'',
           Post ''https://api.github.com/app/installations/42/access_tokens'' ''jwt'']\<rparr>
   \<and> tokens (globalLimiter exampleState) = 5000
   \<and> tokens (globalLimiter admittedState) = 4999
   \<and> Code (fst (requestHandler exampleDecode notFound exampleFlags
            (exampleRequest ''GET'' ''/octocat/.git'') exampleState)) = 400
   \<and> Code (fst (requestHandler exampleDecode notFound exampleFlags
            (exampleRequest ''GET'' ''/owner/repo/.git/config'') exampleState)) = 403
   \<and> Code (fst (requestHandler exampleDecode notFound exampleFlags
            (exampleRequest ''GET'' ''/octocat/Hello-World/README.md'') exampleState)) = 404
   \<and> Code (fst (requestHandler exampleDecode exampleEnv exampleFlags
            (exampleRequest ''GET'' ''/octocat/Hello-World/README.md'') exampleState)) = 200"
proof -
  let ?A = "exampleRequest ''GET'' ''/octocat/Hello-World/README.md''"
  let ?P = "exampleRequest ''POST'' ''/octocat''"
  let ?G = "exampleRequest ''GET'' ''/octocat''"
  let ?S = "exampleRequest ''GET'' ''/octocat/.git''"
  let ?H = "exampleRequest ''GET'' ''/owner/repo/.git/config''"
  note C = prod.collapse [symmetric]
  have now: "nowGlobal exampleEnv = 1000 * Second" "nowSeen exampleEnv = 1000 * Second"
    "nowClient exampleEnv = 1000 * Second"
    "nowGlobal mintFails = 1000 * Second" "nowSeen mintFails = 1000 * Second"
    "nowClient mintFails = 1000 * Second"
    "nowGlobal notFound = 1000 * Second" "nowSeen notFound = 1000 * Second"
    "nowClient notFound = 1000 * Second"
    by (simp_all add: example_defs)
  have live: "ctxErr shuttingDown" "\<not> ctxErr exampleEnv" "\<not> ctxErr mintFails"
    "\<not> ctxErr notFound"
    by (simp_all add: example_defs)
  have meth: "Method ?P \<noteq> ''GET''" "Method ?G = ''GET''" "Method ?S = ''GET''"
    "Method ?H = ''GET''" "Method ?A = ''GET''"
    by (simp_all add: example_defs)
  have path: "URLPath ?S = ''/octocat/.git''" "URLPath ?H = ''/owner/repo/.git/config''"
    "URLPath ?A = ''/octocat/Hello-World/README.md''"
    by (simp_all add: example_defs)
  from requestHandler_order [OF C C C refl C, where dec = exampleDecode and e = shuttingDown
      and fl = exampleFlags and r = ?A and s = exampleState] live
  have r503: "Code (fst (requestHandler exampleDecode shuttingDown exampleFlags ?A exampleState))
      = 503"
    "snd (requestHandler exampleDecode shuttingDown exampleFlags ?A exampleState) = exampleState"
    by blast+
  have l429: "fst (checkLimits exampleEnv ?P clientExhausted) \<noteq> None"
    "calls (snd (checkLimits exampleEnv ?P clientExhausted)) = []"
    by (simp_all add: example_defs time_defs limits_defs Let_def)
  from requestHandler_order [OF C C C refl C, where dec = exampleDecode and e = exampleEnv
      and fl = exampleFlags and r = ?P and s = clientExhausted] live l429(1)
  have "Code (fst (requestHandler exampleDecode exampleEnv exampleFlags ?P clientExhausted)) = 429
    \<and> snd (requestHandler exampleDecode exampleEnv exampleFlags ?P clientExhausted)
      = snd (checkLimits exampleEnv ?P clientExhausted)"
    by blast
  with l429(2)
  have r429: "Code (fst (requestHandler exampleDecode exampleEnv exampleFlags ?P clientExhausted))
      = 429"
    "calls (snd (requestHandler exampleDecode exampleEnv exampleFlags ?P clientExhausted)) = []"
    by simp_all
  from requestHandler_order [OF C example_admitted [OF now(4,5,6), where m = "''POST''" and p = "''/octocat''"]
      C refl C, where dec = exampleDecode and fl = exampleFlags] live meth
  have "Code (fst (requestHandler exampleDecode mintFails exampleFlags ?P exampleState)) = 405
    \<and> snd (requestHandler exampleDecode mintFails exampleFlags ?P exampleState) = admittedState"
    by blast
  moreover have "fst (requestHandler exampleDecode mintFails exampleFlags ?P exampleState)
      = httpError ''Method Not Allowed'' 405"
    by (simp add: requestHandler_def live meth example_admitted [OF now(4,5,6)])
  ultimately have r405: "requestHandler exampleDecode mintFails exampleFlags ?P exampleState
      = (httpError ''Method Not Allowed'' 405, admittedState)"
    by (metis prod.collapse)
  from requestHandler_order [OF C example_admitted [OF now(4,5,6), where m = "''GET''" and p = "''/octocat''"]
      example_not_minted refl C, where dec = exampleDecode] live meth
  have r500: "Code (fst (requestHandler exampleDecode mintFails exampleFlags ?G exampleState)) = 500"
    "snd (requestHandler exampleDecode mintFails exampleFlags ?G exampleState)
      = admittedState\<lparr>calls := [SignJWT ''Iv1.0'',
           Post ''https://api.github.com/app/installations/42/access_tokens'' ''jwt'']\<rparr>"
    by simp_all
  have tok: "tokens (globalLimiter exampleState) = 5000" "tokens (globalLimiter admittedState) = 4999"
    by (simp_all add: admittedState_def example_defs limits_defs)
  from requestHandler_order [OF C example_admitted [OF now(7,8,9), where m = "''GET''" and p = "''/octocat/.git''"]
      example_minted_notFound refl C, where dec = exampleDecode] live meth
  have r400: "Code (fst (requestHandler exampleDecode notFound exampleFlags ?S exampleState)) = 400"
    by (simp add: path example_paths)
  from requestHandler_order [OF C example_admitted [OF now(7,8,9), where m = "''GET''" and p = "''/owner/repo/.git/config''"]
      example_minted_notFound refl C, where dec = exampleDecode] live meth
  have r403: "Code (fst (requestHandler exampleDecode notFound exampleFlags ?H exampleState)) = 403"
    by (simp add: path example_paths)
  from requestHandler_order [OF C example_admitted [OF now(7,8,9), where m = "''GET''" and p = "''/octocat/Hello-World/README.md''"]
      example_minted_notFound refl C, where dec = exampleDecode] live meth example_not_fetched
  have r404: "Code (fst (requestHandler exampleDecode notFound exampleFlags ?A exampleState)) = 404"
    by (simp add: path example_paths)
  from requestHandler_order [OF C example_admitted [OF now(1,2,3), where m = "''GET''" and p = "''/octocat/Hello-World/README.md''"]
      example_minted refl C, where dec = exampleDecode] live meth example_fetched
  have r200: "Code (fst (requestHandler exampleDecode exampleEnv exampleFlags ?A exampleState)) = 200"
    by (simp add: path example_paths)
  from r503 r429 r405 r500 tok r400 r403 r404 r200 show ?thesis
    by (intro conjI)
qed

section \<open>Path safety\<close>

lemma requestHandler_path_safety:
  assumes "reachesPathSafety e fl r s"
  shows "(Code (fst (requestHandler dec e fl r s)) = 403)
      = dotElem (Split (SplitN (URLPath r) CHR ''/'' 4 ! 3) CHR ''/'')"
proof -
  obtain lm s1 where l: "checkLimits e r s = (lm, s1)"
    by (cases "checkLimits e r s")
  obtain tk s2 where t: "getInstallationToken e fl s1 = (tk, s2)"
    by (cases "getInstallationToken e fl s1")
  from assms l t obtain tok where tk: "tk = Inr tok"
    by (cases tk) (auto simp: reachesPathSafety_def)
  let ?parts = "SplitN (URLPath r) CHR ''/'' 4"
  obtain fc s3 where f: "GetFileContent dec e (?parts ! 1) (?parts ! 2) (?parts ! 3) tok s2
      = (fc, s3)"
    by (cases "GetFileContent dec e (?parts ! 1) (?parts ! 2) (?parts ! 3) tok s2")
  from assms l t tk f show ?thesis
    by (cases fc)
      (auto simp: reachesPathSafety_def requestHandler_def httpError_def Let_def
        split: prod.splits)
qed

text \<open>
  C3, as amended. For a request that reaches the check of the file path, the reply is 403
  exactly when an element of the file path, the part of the request path after the owner
  and the repository, starts with a dot; the owner and the repository are not looked at.
  So a request path none of whose segments starts with a dot is not refused by this
  check, \<open>/owner/repo/.git/config\<close> is refused with 403 and
  \<open>/owner/repo/docs/readme.md\<close> passes.
\<close>

theorem path_safety_file_path:
  assumes "reachesPathSafety e fl r s"
  shows "((Code (fst (requestHandler dec e fl r s)) = 403)
        = (\<exists>elem \<in> set (Split (SplitN (URLPath r) CHR ''/'' 4 ! 3) CHR ''/'').
             elem \<noteq> [] \<and> hd elem = CHR ''.''))
    \<and> ((\<forall>seg \<in> set (Split (URLPath r) CHR ''/''). seg = [] \<or> hd seg \<noteq> CHR ''.'') \<longrightarrow>
          Code (fst (requestHandler dec e fl r s)) \<noteq> 403)
    \<and> (URLPath r = ''/owner/repo/.git/config'' \<longrightarrow>
          Code (fst (requestHandler dec e fl r s)) = 403)
    \<and> (URLPath r = ''/owner/repo/docs/readme.md'' \<longrightarrow>
          Code (fst (requestHandler dec e fl r s)) \<noteq> 403)"
proof (intro conjI impI)
  note iff = requestHandler_path_safety [OF assms, of dec]
  show "(Code (fst (requestHandler dec e fl r s)) = 403)
        = (\<exists>elem \<in> set (Split (SplitN (URLPath r) CHR ''/'' 4 ! 3) CHR ''/'').
             elem \<noteq> [] \<and> hd elem = CHR ''.'')"
    using iff by (simp add: dotElem_iff)
  {
    assume clean: "\<forall>seg \<in> set (Split (URLPath r) CHR ''/''). seg = [] \<or> hd seg \<noteq> CHR ''.''"
    from assms have "\<not> length (SplitN (URLPath r) CHR ''/'' 4) < 4"
      by (simp add: reachesPathSafety_def)
    from Split_rest_subset [OF this] clean
    have "\<not> dotElem (Split (SplitN (URLPath r) CHR ''/'' 4 ! 3) CHR ''/'')"
      by (auto simp: dotElem_iff)
    with iff show "Code (fst (requestHandler dec e fl r s)) \<noteq> 403"
      by simp
  }
  {
    assume "URLPath r = ''/owner/repo/.git/config''"
    with iff show "Code (fst (requestHandler dec e fl r s)) = 403"
      by (simp add: SplitN_numeral nth_numeral)
  }
  {
    assume "URLPath r = ''/owner/repo/docs/readme.md''"
    with iff show "Code (fst (requestHandler dec e fl r s)) \<noteq> 403"
      by (simp add: SplitN_numeral nth_numeral)
  }
qed

lemma example_clock:
  "nowGlobal exampleEnv = 1000 * Second" "nowSeen exampleEnv = 1000 * Second"
  "nowClient exampleEnv = 1000 * Second"
  by (simp_all add: example_defs)

lemmas example_admitted_all = example_admitted [OF example_clock]

lemma example_live: "\<not> ctxErr exampleEnv" "Method (exampleRequest m p) = m"
  "URLPath (exampleRequest m p) = p"
  by (simp_all add: example_defs)

lemma example_reaches:
  "reachesPathSafety exampleEnv exampleFlags (exampleRequest ''GET'' ''/octocat/.github/README.md'')
     exampleState"
  "reachesPathSafety exampleEnv exampleFlags (exampleRequest ''GET'' ''/owner/repo/.git/config'')
     exampleState"
  "reachesPathSafety exampleEnv exampleFlags (exampleRequest ''GET'' ''/owner/repo/docs/readme.md'')
     exampleState"
  by (simp_all add: reachesPathSafety_def example_admitted_all example_minted example_live
      SplitN_numeral)

text \<open>
  C3 as stated fails: the request path \<open>/octocat/.github/README.md\<close> reaches the check and
  has the segment \<open>.github\<close>, the repository, which starts with a dot; the file is fetched
  and served with 200.
\<close>

theorem path_safety_any_segment_counterexample:
  "reachesPathSafety exampleEnv exampleFlags
     (exampleRequest ''GET'' ''/octocat/.github/README.md'') exampleState
   \<and> URLPath (exampleRequest ''GET'' ''/octocat/.github/README.md'')
       = ''/octocat/.github/README.md''
   \<and> Split ''/octocat/.github/README.md'' CHR ''/'' = [[], ''octocat'', ''.github'', ''README.md'']
   \<and> fst (requestHandler exampleDecode exampleEnv exampleFlags
         (exampleRequest ''GET'' ''/octocat/.github/README.md'') exampleState)
       = \<lparr>Code = 200, ContentType = ''text/plain; charset=utf-8'', Content = ''Hello, World!''\<rparr>"
proof -
  have "fst (GetFileContent exampleDecode exampleEnv ''octocat'' ''.github'' ''README.md''
     ''token-1'' mintedState) = Inr (''Hello, World!'', ''text/plain; charset=utf-8'')"
    by (simp add: example_defs fetch_defs Let_def)
  then obtain s3 where "GetFileContent exampleDecode exampleEnv ''octocat'' ''.github''
     ''README.md'' ''token-1'' mintedState
       = (Inr (''Hello, World!'', ''text/plain; charset=utf-8''), s3)"
    by (metis prod.collapse)
  then have "fst (requestHandler exampleDecode exampleEnv exampleFlags
         (exampleRequest ''GET'' ''/octocat/.github/README.md'') exampleState)
       = \<lparr>Code = 200, ContentType = ''text/plain; charset=utf-8'', Content = ''Hello, World!''\<rparr>"
    by (simp add: requestHandler_def example_admitted_all example_minted example_live
        SplitN_numeral nth_numeral)
  with example_reaches(1) show ?thesis
    by (simp add: example_live SplitN_numeral)
qed

theorem path_safety_file_path_witness:
  "reachesPathSafety exampleEnv exampleFlags
     (exampleRequest ''GET'' ''/owner/repo/.git/config'') exampleState
   \<and> Code (fst (requestHandler exampleDecode exampleEnv exampleFlags
         (exampleRequest ''GET'' ''/owner/repo/.git/config'') exampleState)) = 403
   \<and> reachesPathSafety exampleEnv exampleFlags
     (exampleRequest ''GET'' ''/owner/repo/docs/readme.md'') exampleState
   \<and> Code (fst (requestHandler exampleDecode exampleEnv exampleFlags
         (exampleRequest ''GET'' ''/owner/repo/docs/readme.md'') exampleState)) \<noteq> 403
   \<and> Code (fst (requestHandler exampleDecode exampleEnv exampleFlags
         (exampleRequest ''GET'' ''/octocat/.github/README.md'') exampleState)) \<noteq> 403"
proof -
  have u: "URLPath (exampleRequest ''GET'' ''/owner/repo/.git/config'') = ''/owner/repo/.git/config''"
    "URLPath (exampleRequest ''GET'' ''/owner/repo/docs/readme.md'') = ''/owner/repo/docs/readme.md''"
    "URLPath (exampleRequest ''GET'' ''/octocat/.github/README.md'') = ''/octocat/.github/README.md''"
    by (simp_all add: example_defs)
  from path_safety_file_path [OF example_reaches(2), of exampleDecode] u
  have a: "Code (fst (requestHandler exampleDecode exampleEnv exampleFlags
         (exampleRequest ''GET'' ''/owner/repo/.git/config'') exampleState)) = 403"
    by blast
  from path_safety_file_path [OF example_reaches(3), of exampleDecode] u
  have b: "Code (fst (requestHandler exampleDecode exampleEnv exampleFlags
         (exampleRequest ''GET'' ''/owner/repo/docs/readme.md'') exampleState)) \<noteq> 403"
    by blast
  from path_safety_file_path [OF example_reaches(1), of exampleDecode]
  have c: "Code (fst (requestHandler exampleDecode exampleEnv exampleFlags
         (exampleRequest ''GET'' ''/octocat/.github/README.md'') exampleState)) \<noteq> 403"
    by (simp add: u SplitN_numeral nth_numeral)
  from example_reaches(2,3) a b c show ?thesis
    by (intro conjI)
qed

section \<open>Fetch failures and the size threshold\<close>

lemma GetFileContent_no_request:
  "newRequest e ''GET'' (contentsURL owner repo path) = Some m \<Longrightarrow>
     GetFileContent dec e owner repo path token s = (Inl (FailedToCreateRequest m), s)"
  by (simp add: GetFileContent_def)

lemma GetFileContent_transport:
  "newRequest e ''GET'' (contentsURL owner repo path) = None \<Longrightarrow>
   getContents e (contentsURL owner repo path) token = Inl m \<Longrightarrow>
     GetFileContent dec e owner repo path token s
       = (Inl (FailedToFetchFile m),
          s\<lparr>calls := calls s @ [Get (contentsURL owner repo path) token]\<rparr>)"
  by (simp add: GetFileContent_def)

lemma GetFileContent_status:
  "newRequest e ''GET'' (contentsURL owner repo path) = None \<Longrightarrow>
   getContents e (contentsURL owner repo path) token = Inr resp \<Longrightarrow>
   StatusCode resp \<noteq> 200 \<Longrightarrow>
     GetFileContent dec e owner repo path token s
       = (Inl (FetchFileStatus (Status resp)),
          s\<lparr>calls := calls s @ [Get (contentsURL owner repo path) token]\<rparr>)"
  by (simp add: GetFileContent_def)

lemma GetFileContent_inline:
  "newRequest e ''GET'' (contentsURL owner repo path) = None \<Longrightarrow>
   getContents e (contentsURL owner repo path) token = Inr resp \<Longrightarrow>
   StatusCode resp = 200 \<Longrightarrow> Body resp = Inr fd \<Longrightarrow> fdSize fd \<le> 1048576 \<Longrightarrow>
     GetFileContent dec e owner repo path token s
       = (case dec (fdContent fd) of
            Inl m \<Rightarrow> Inl (FailedToDecodeFileContent m)
          | Inr content \<Rightarrow> Inr (content, identifyContentType e (Ext (fdName fd)) content),
          s\<lparr>calls := calls s @ [Get (contentsURL owner repo path) token]\<rparr>)"
  by (simp add: GetFileContent_def Let_def split: sum.splits)

lemma GetFileContent_stream:
  "newRequest e ''GET'' (contentsURL owner repo path) = None \<Longrightarrow>
   getContents e (contentsURL owner repo path) token = Inr resp \<Longrightarrow>
   StatusCode resp = 200 \<Longrightarrow> Body resp = Inr fd \<Longrightarrow> 1048576 < fdSize fd \<Longrightarrow>
   newRequest e ''GET'' (fdDownloadURL fd) = None \<Longrightarrow>
     GetFileContent dec e owner repo path token s
       = (case getDownload e (fdDownloadURL fd) token of
            Inl m \<Rightarrow> Inl (FailedToDownloadFile m)
          | Inr resp2 \<Rightarrow>
              (case Body resp2 of
                 Inl m \<Rightarrow> Inl (FailedToReadDownloadResponse m)
               | Inr content \<Rightarrow> Inr (content, identifyContentType e (Ext (fdName fd)) content)),
          s\<lparr>calls := calls s @ [Get (contentsURL owner repo path) token,
                                  Get (fdDownloadURL fd) token]\<rparr>)"
  by (simp add: GetFileContent_def Let_def split: sum.splits)

lemma GetFileContent_stream_no_request:
  "newRequest e ''GET'' (contentsURL owner repo path) = None \<Longrightarrow>
   getContents e (contentsURL owner repo path) token = Inr resp \<Longrightarrow>
   StatusCode resp = 200 \<Longrightarrow> Body resp = Inr fd \<Longrightarrow> 1048576 < fdSize fd \<Longrightarrow>
   newRequest e ''GET'' (fdDownloadURL fd) = Some m \<Longrightarrow>
     GetFileContent dec e owner repo path token s
       = (Inl (FailedToCreateDownloadRequest m),
          s\<lparr>calls := calls s @ [Get (contentsURL owner repo path) token]\<rparr>)"
  by (simp add: GetFileContent_def Let_def)

lemma requestHandler_fetch:
  assumes "reachesFetch e fl r s"
    and "parts = SplitN (URLPath r) CHR ''/'' 4"
    and "getInstallationToken e fl (snd (checkLimits e r s)) = (Inr tok, s2)"
    and "GetFileContent dec e (parts ! 1) (parts ! 2) (parts ! 3) tok s2 = (fc, s3)"
  shows "requestHandler dec e fl r s =
    (case fc of
       Inl err \<Rightarrow> httpError ''File Not Found'' 404
     | Inr (content, contentType) \<Rightarrow>
         \<lparr>Code = 200, ContentType = contentType, Content = content\<rparr>, s3)"
proof -
  obtain lm s1 where l: "checkLimits e r s = (lm, s1)"
    by (cases "checkLimits e r s")
  with assms show ?thesis
    by (cases fc)
      (auto simp: reachesFetch_def reachesPathSafety_def requestHandler_def Let_def
        split: prod.splits)
qed

text \<open>
  C5. For a request that reaches the fetch, every error of \<open>GetFileContent\<close> gives the
  reply 404 "File Not Found", and 404 is given for nothing else. So it is for a failure
  of the transport to GitHub, for every status of GitHub other than 200, the 404 of a
  missing file among them, for an inline payload that does not decode, and for a failure
  of the transport of the download.
\<close>

theorem fetch_failures_are_404:
  assumes "reachesFetch e fl r s"
    and "parts = SplitN (URLPath r) CHR ''/'' 4"
    and "getInstallationToken e fl (snd (checkLimits e r s)) = (Inr tok, s2)"
    and "url = contentsURL (parts ! 1) (parts ! 2) (parts ! 3)"
    and "GetFileContent dec e (parts ! 1) (parts ! 2) (parts ! 3) tok s2 = (fc, s3)"
  shows "(\<forall>err. fc = Inl err \<longrightarrow>
            requestHandler dec e fl r s = (httpError ''File Not Found'' 404, s3))
    \<and> ((Code (fst (requestHandler dec e fl r s)) = 404) = isl fc)
    \<and> (newRequest e ''GET'' url = None \<and> (\<exists>m. getContents e url tok = Inl m) \<longrightarrow>
          Code (fst (requestHandler dec e fl r s)) = 404)
    \<and> (newRequest e ''GET'' url = None
        \<and> (\<exists>resp. getContents e url tok = Inr resp \<and> StatusCode resp \<noteq> 200) \<longrightarrow>
          Code (fst (requestHandler dec e fl r s)) = 404)
    \<and> (newRequest e ''GET'' url = None
        \<and> (\<exists>resp fd m. getContents e url tok = Inr resp \<and> StatusCode resp = 200
              \<and> Body resp = Inr fd \<and> fdSize fd \<le> 1048576 \<and> dec (fdContent fd) = Inl m) \<longrightarrow>
          Code (fst (requestHandler dec e fl r s)) = 404)
    \<and> (newRequest e ''GET'' url = None
        \<and> (\<exists>resp fd m. getContents e url tok = Inr resp \<and> StatusCode resp = 200
              \<and> Body resp = Inr fd \<and> 1048576 < fdSize fd
              \<and> newRequest e ''GET'' (fdDownloadURL fd) = None
              \<and> getDownload e (fdDownloadURL fd) tok = Inl m) \<longrightarrow>
          Code (fst (requestHandler dec e fl r s)) = 404)"
proof -
  note h = requestHandler_fetch [OF assms(1,2,3,5)]
  have all: "\<forall>err. fc = Inl err \<longrightarrow>
            requestHandler dec e fl r s = (httpError ''File Not Found'' 404, s3)"
    using h by simp
  have iff: "(Code (fst (requestHandler dec e fl r s)) = 404) = isl fc"
    using h by (cases fc) (auto simp: httpError_def)
  have transport: "Code (fst (requestHandler dec e fl r s)) = 404"
    if "newRequest e ''GET'' url = None \<and> (\<exists>m. getContents e url tok = Inl m)"
  proof -
    from that assms(4,5) have "isl fc"
      by (auto simp: GetFileContent_transport)
    with iff show ?thesis by simp
  qed
  have status: "Code (fst (requestHandler dec e fl r s)) = 404"
    if "newRequest e ''GET'' url = None
        \<and> (\<exists>resp. getContents e url tok = Inr resp \<and> StatusCode resp \<noteq> 200)"
  proof -
    from that assms(4,5) have "isl fc"
      by (auto simp: GetFileContent_status)
    with iff show ?thesis by simp
  qed
  have decode: "Code (fst (requestHandler dec e fl r s)) = 404"
    if "newRequest e ''GET'' url = None
        \<and> (\<exists>resp fd m. getContents e url tok = Inr resp \<and> StatusCode resp = 200
              \<and> Body resp = Inr fd \<and> fdSize fd \<le> 1048576 \<and> dec (fdContent fd) = Inl m)"
  proof -
    from that assms(4,5) have "isl fc"
      by (auto simp: GetFileContent_inline)
    with iff show ?thesis by simp
  qed
  have download: "Code (fst (requestHandler dec e fl r s)) = 404"
    if "newRequest e ''GET'' url = None
        \<and> (\<exists>resp fd m. getContents e url tok = Inr resp \<and> StatusCode resp = 200
              \<and> Body resp = Inr fd \<and> 1048576 < fdSize fd
              \<and> newRequest e ''GET'' (fdDownloadURL fd) = None
              \<and> getDownload e (fdDownloadURL fd) tok = Inl m)"
  proof -
    from that assms(4,5) have "isl fc"
      by (auto simp: GetFileContent_stream)
    with iff show ?thesis by simp
  qed
  from all iff transport status decode download show ?thesis
    by blast
qed


lemma example_contents_admitted:
  "checkLimits (exampleEnv\<lparr>getContents := g\<rparr>) (exampleRequest m p) exampleState
     = (None, admittedState)"
  by (rule example_admitted) (simp_all add: example_defs)

lemma example_contents_minted:
  "getInstallationToken (exampleEnv\<lparr>getContents := g\<rparr>) exampleFlags admittedState
     = (Inr ''token-1'', mintedState)"
  by (simp add: admittedState_def mintedState_def example_defs time_defs token_defs Let_def)

lemma example_contents_reachesFetch:
  "reachesFetch (exampleEnv\<lparr>getContents := g\<rparr>) exampleFlags
     (exampleRequest ''GET'' ''/octocat/Hello-World/README.md'') exampleState"
  by (simp add: reachesFetch_def reachesPathSafety_def example_contents_admitted
      example_contents_minted example_live example_paths nth_numeral)

lemma example_contents_minted_after:
  "getInstallationToken (exampleEnv\<lparr>getContents := g\<rparr>) exampleFlags
     (snd (checkLimits (exampleEnv\<lparr>getContents := g\<rparr>) (exampleRequest m p) exampleState))
     = (Inr ''token-1'', mintedState)"
  by (simp add: example_contents_admitted example_contents_minted)

lemma example_contents_request:
  "newRequest exampleEnv m url = None"
  "getContents (exampleEnv\<lparr>getContents := g\<rparr>) = g"
  by (simp_all add: example_defs)

theorem fetch_failures_are_404_witness:
  "reachesFetch notFound exampleFlags
     (exampleRequest ''GET'' ''/octocat/Hello-World/README.md'') exampleState
   \<and> requestHandler exampleDecode notFound exampleFlags
       (exampleRequest ''GET'' ''/octocat/Hello-World/README.md'') exampleState
     = (httpError ''File Not Found'' 404,
        mintedState\<lparr>calls := calls mintedState
          @ [Get ''https://api.github.com/repos/octocat/Hello-World/contents/README.md''
               ''token-1'']\<rparr>)
   \<and> Code (fst (requestHandler exampleDecode unreachable exampleFlags
       (exampleRequest ''GET'' ''/octocat/Hello-World/README.md'') exampleState)) = 404
   \<and> Code (fst (requestHandler exampleDecode badPayload exampleFlags
       (exampleRequest ''GET'' ''/octocat/Hello-World/README.md'') exampleState)) = 404
   \<and> Code (fst (requestHandler exampleDecode exampleEnv exampleFlags
       (exampleRequest ''GET'' ''/octocat/Hello-World/README.md'') exampleState)) \<noteq> 404"
proof -
  let ?A = "exampleRequest ''GET'' ''/octocat/Hello-World/README.md''"
  let ?url = "''https://api.github.com/repos/octocat/Hello-World/contents/README.md''"
  have url: "contentsURL ''octocat'' ''Hello-World'' ''README.md'' = ?url"
    by (simp add: contentsURL_def)
  note T = fetch_failures_are_404 [OF example_contents_reachesFetch refl
      example_contents_minted_after refl prod.collapse [symmetric], where dec = exampleDecode,
      unfolded example_live example_paths nth_numeral url]
  have nf: "GetFileContent exampleDecode notFound ''octocat'' ''Hello-World'' ''README.md''
      ''token-1'' mintedState
      = (Inl (FetchFileStatus ''404 Not Found''),
         mintedState\<lparr>calls := calls mintedState @ [Get ?url ''token-1'']\<rparr>)"
    by (simp add: example_defs fetch_defs Let_def)
  from T [of "getContents notFound"] nf
  have r1: "requestHandler exampleDecode notFound exampleFlags ?A exampleState
     = (httpError ''File Not Found'' 404,
        mintedState\<lparr>calls := calls mintedState @ [Get ?url ''token-1'']\<rparr>)"
    by (simp add: notFound_def)
  from T [of "getContents unreachable"]
  have r2: "Code (fst (requestHandler exampleDecode unreachable exampleFlags ?A exampleState))
      = 404"
    by (simp add: unreachable_def example_contents_request)
  from T [of "getContents badPayload"]
  have r3: "Code (fst (requestHandler exampleDecode badPayload exampleFlags ?A exampleState))
      = 404"
    by (simp add: badPayload_def example_contents_request exampleFile_def exampleDecode_def)
  have "\<not> isl (fst (GetFileContent exampleDecode exampleEnv ''octocat'' ''Hello-World''
      ''README.md'' ''token-1'' mintedState))"
    by (simp add: example_fetched)
  with T [of "getContents exampleEnv"]
  have r4: "Code (fst (requestHandler exampleDecode exampleEnv exampleFlags ?A exampleState))
      \<noteq> 404"
    by simp
  have r0: "reachesFetch notFound exampleFlags ?A exampleState"
    using example_contents_reachesFetch [of "getContents notFound"]
    by (simp add: notFound_def)
  from r0 r1 r2 r3 r4 show ?thesis
    by (intro conjI)
qed


lemma decode_error_message:
  "Error (FailedToDecodeFileContent m) \<noteq> Error (FailedToFetchFile m')"
  "Error (FailedToDecodeFileContent m) \<noteq> Error (FailedToDownloadFile m')"
  "Error (FailedToDecodeFileContent m) \<noteq> Error (FailedToReadDownloadResponse m')"
  by simp_all

text \<open>
  C6. When GitHub's metadata for the file is read, a reported size above 1048576 bytes
  makes \<open>GetFileContent\<close> fetch the download URL of the metadata and return the bytes
  of that response as they are, of whatever length, without consulting the decoder; a
  size of at most 1048576 makes it decode the inline payload and call nothing else. A
  payload that does not decode gives the error "failed to decode file content", which is
  none of the errors of the transport, by constructor and by message.
\<close>

theorem GetFileContent_size_threshold:
  assumes "url = contentsURL owner repo path"
    and "newRequest e ''GET'' url = None"
    and "getContents e url token = Inr resp"
    and "StatusCode resp = 200"
    and "Body resp = Inr fd"
  shows
   "(1048576 < fdSize fd \<longrightarrow>
       (\<forall>resp2 content.
          newRequest e ''GET'' (fdDownloadURL fd) = None
          \<and> getDownload e (fdDownloadURL fd) token = Inr resp2 \<and> Body resp2 = Inr content \<longrightarrow>
            GetFileContent dec e owner repo path token s
              = (Inr (content, identifyContentType e (Ext (fdName fd)) content),
                 s\<lparr>calls := calls s @ [Get url token, Get (fdDownloadURL fd) token]\<rparr>))
     \<and> (\<forall>m. newRequest e ''GET'' (fdDownloadURL fd) = None
              \<and> getDownload e (fdDownloadURL fd) token = Inl m \<longrightarrow>
            fst (GetFileContent dec e owner repo path token s) = Inl (FailedToDownloadFile m))
     \<and> (\<forall>dec'. GetFileContent dec' e owner repo path token s
                 = GetFileContent dec e owner repo path token s))
  \<and> (fdSize fd \<le> 1048576 \<longrightarrow>
       snd (GetFileContent dec e owner repo path token s)
         = s\<lparr>calls := calls s @ [Get url token]\<rparr>
     \<and> (\<forall>content. dec (fdContent fd) = Inr content \<longrightarrow>
            fst (GetFileContent dec e owner repo path token s)
              = Inr (content, identifyContentType e (Ext (fdName fd)) content))
     \<and> (\<forall>m. dec (fdContent fd) = Inl m \<longrightarrow>
            fst (GetFileContent dec e owner repo path token s)
              = Inl (FailedToDecodeFileContent m)))
  \<and> (\<forall>m m'. FailedToDecodeFileContent m \<noteq> FailedToFetchFile m'
          \<and> FailedToDecodeFileContent m \<noteq> FailedToDownloadFile m'
          \<and> FailedToDecodeFileContent m \<noteq> FailedToReadDownloadResponse m'
          \<and> Error (FailedToDecodeFileContent m) \<noteq> Error (FailedToFetchFile m')
          \<and> Error (FailedToDecodeFileContent m) \<noteq> Error (FailedToDownloadFile m')
          \<and> Error (FailedToDecodeFileContent m) \<noteq> Error (FailedToReadDownloadResponse m'))"
proof (intro conjI impI allI)
  note a = assms(2-5) [unfolded assms(1)]
  {
    fix resp2 content
    assume big: "1048576 < fdSize fd"
      and dl: "newRequest e ''GET'' (fdDownloadURL fd) = None
          \<and> getDownload e (fdDownloadURL fd) token = Inr resp2 \<and> Body resp2 = Inr content"
    from dl show "GetFileContent dec e owner repo path token s
              = (Inr (content, identifyContentType e (Ext (fdName fd)) content),
                 s\<lparr>calls := calls s @ [Get url token, Get (fdDownloadURL fd) token]\<rparr>)"
      by (simp add: GetFileContent_stream [OF a big] assms(1))
  }
  {
    fix m
    assume big: "1048576 < fdSize fd"
      and dl: "newRequest e ''GET'' (fdDownloadURL fd) = None
              \<and> getDownload e (fdDownloadURL fd) token = Inl m"
    from dl show "fst (GetFileContent dec e owner repo path token s)
        = Inl (FailedToDownloadFile m)"
      by (simp add: GetFileContent_stream [OF a big])
  }
  {
    fix dec'
    assume big: "1048576 < fdSize fd"
    show "GetFileContent dec' e owner repo path token s
                 = GetFileContent dec e owner repo path token s"
    proof (cases "newRequest e ''GET'' (fdDownloadURL fd)")
      case None
      then show ?thesis
        by (simp add: GetFileContent_stream [OF a big])
    next
      case (Some m)
      then show ?thesis
        by (simp add: GetFileContent_stream_no_request [OF a big])
    qed
  }
  {
    assume small: "fdSize fd \<le> 1048576"
    show "snd (GetFileContent dec e owner repo path token s)
        = s\<lparr>calls := calls s @ [Get url token]\<rparr>"
      by (simp add: GetFileContent_inline [OF a small] assms(1))
    {
      fix content
      assume "dec (fdContent fd) = Inr content"
      then show "fst (GetFileContent dec e owner repo path token s)
              = Inr (content, identifyContentType e (Ext (fdName fd)) content)"
        by (simp add: GetFileContent_inline [OF a small])
    }
    {
      fix m
      assume "dec (fdContent fd) = Inl m"
      then show "fst (GetFileContent dec e owner repo path token s)
              = Inl (FailedToDecodeFileContent m)"
        by (simp add: GetFileContent_inline [OF a small])
    }
  }
qed (simp_all only: error.distinct decode_error_message not_False_eq_True)

theorem GetFileContent_size_threshold_witness:
  "fdSize exampleFile \<le> 1048576
   \<and> GetFileContent exampleDecode exampleEnv ''octocat'' ''Hello-World'' ''README.md''
        ''token-1'' mintedState
     = (Inr (''Hello, World!'', ''text/plain; charset=utf-8''),
        mintedState\<lparr>calls := calls mintedState
          @ [Get ''https://api.github.com/repos/octocat/Hello-World/contents/README.md''
               ''token-1'']\<rparr>)
   \<and> fst (GetFileContent exampleDecode badPayload ''octocat'' ''Hello-World'' ''README.md''
        ''token-1'' mintedState)
     = Inl (FailedToDecodeFileContent ''illegal base64 data at input byte 0'')
   \<and> 1048576 < fdSize (exampleFile\<lparr>fdContent := [], fdSize := 2000000\<rparr>)
   \<and> length ''streamed'' = 8
   \<and> GetFileContent exampleDecode bigFile ''octocat'' ''Hello-World'' ''README.md''
        ''token-1'' mintedState
     = (Inr (''streamed'', ''text/plain; charset=utf-8''),
        mintedState\<lparr>calls := calls mintedState
          @ [Get ''https://api.github.com/repos/octocat/Hello-World/contents/README.md''
               ''token-1'',
             Get ''https://raw.example/README.md'' ''token-1'']\<rparr>)"
proof -
  let ?url = "''https://api.github.com/repos/octocat/Hello-World/contents/README.md''"
  have url: "?url = contentsURL ''octocat'' ''Hello-World'' ''README.md''"
    by (simp add: contentsURL_def)
  have small: "fdSize exampleFile \<le> 1048576"
    and big: "1048576 < fdSize (exampleFile\<lparr>fdContent := [], fdSize := 2000000\<rparr>)"
    by (simp_all add: exampleFile_def)
  have ct: "identifyContentType exampleEnv ext content = ''text/plain; charset=utf-8''"
      "identifyContentType bigFile ext content = ''text/plain; charset=utf-8''" for ext content
    by (simp_all add: identifyContentType_def example_defs)
  have A: "newRequest exampleEnv ''GET'' ?url = None"
    "getContents exampleEnv ?url ''token-1''
       = Inr \<lparr>StatusCode = 200, Status = ''200 OK'', Body = Inr exampleFile\<rparr>"
    by (simp_all add: exampleEnv_def)
  from GetFileContent_size_threshold [OF url A, where dec = exampleDecode and s = mintedState]
    small
  have r1: "GetFileContent exampleDecode exampleEnv ''octocat'' ''Hello-World'' ''README.md''
        ''token-1'' mintedState
     = (Inr (''Hello, World!'', ''text/plain; charset=utf-8''),
        mintedState\<lparr>calls := calls mintedState @ [Get ?url ''token-1'']\<rparr>)"
    by (simp add: exampleFile_def exampleDecode_def ct prod_eq_iff)
  have B: "newRequest badPayload ''GET'' ?url = None"
    "getContents badPayload ?url ''token-1''
       = Inr \<lparr>StatusCode = 200, Status = ''200 OK'',
              Body = Inr (exampleFile\<lparr>fdContent := ''!!!!''\<rparr>)\<rparr>"
    by (simp_all add: badPayload_def exampleEnv_def)
  from GetFileContent_size_threshold [OF url B, where dec = exampleDecode and s = mintedState]
  have r2: "fst (GetFileContent exampleDecode badPayload ''octocat'' ''Hello-World''
        ''README.md'' ''token-1'' mintedState)
     = Inl (FailedToDecodeFileContent ''illegal base64 data at input byte 0'')"
    by (simp add: exampleFile_def exampleDecode_def)
  have C: "newRequest bigFile ''GET'' ?url = None"
    "getContents bigFile ?url ''token-1''
       = Inr \<lparr>StatusCode = 200, Status = ''200 OK'',
              Body = Inr (exampleFile\<lparr>fdContent := [], fdSize := 2000000\<rparr>)\<rparr>"
    by (simp_all add: bigFile_def exampleEnv_def)
  have D: "newRequest bigFile ''GET'' ''https://raw.example/README.md'' = None"
    "getDownload bigFile ''https://raw.example/README.md'' ''token-1''
       = Inr \<lparr>StatusCode = 200, Status = ''200 OK'', Body = Inr ''streamed''\<rparr>"
    by (simp_all add: bigFile_def exampleEnv_def)
  from GetFileContent_size_threshold [OF url C, where dec = exampleDecode and s = mintedState]
    big D
  have r3: "GetFileContent exampleDecode bigFile ''octocat'' ''Hello-World'' ''README.md''
        ''token-1'' mintedState
     = (Inr (''streamed'', ''text/plain; charset=utf-8''),
        mintedState\<lparr>calls := calls mintedState
          @ [Get ?url ''token-1'', Get ''https://raw.example/README.md'' ''token-1'']\<rparr>)"
    by (simp add: exampleFile_def ct)
  from small big r1 r2 r3 show ?thesis
    by simp
qed

section \<open>Building the global limiter\<close>







section \<open>Single flight\<close>

lemma filter_update_same:
  "i < length xs \<Longrightarrow> P (xs ! i) = P y \<Longrightarrow>
     length (filter P (xs[i := y])) = length (filter P xs)"
proof (induction xs arbitrary: i)
  case Nil
  then show ?case by simp
next
  case (Cons x xs)
  then show ?case by (cases i) auto
qed

lemma filter_update_gain:
  "i < length xs \<Longrightarrow> \<not> P (xs ! i) \<Longrightarrow> P y \<Longrightarrow>
     length (filter P (xs[i := y])) = Suc (length (filter P xs))"
proof (induction xs arbitrary: i)
  case Nil
  then show ?case by simp
next
  case (Cons x xs)
  then show ?case by (cases i) auto
qed

lemma filter_update_loss:
  "i < length xs \<Longrightarrow> P (xs ! i) \<Longrightarrow> \<not> P y \<Longrightarrow>
     Suc (length (filter P (xs[i := y]))) = length (filter P xs)"
proof (induction xs arbitrary: i)
  case Nil
  then show ?case by simp
next
  case (Cons x xs)
  then show ?case by (cases i) auto
qed

lemma holders_one:
  assumes "holders c \<le> 1" and "i < length (callers c)" and "j < length (callers c)"
    and "callers c ! i = Holding" and "callers c ! j = Holding"
  shows "i = j"
proof (rule ccontr)
  assume ne: "i \<noteq> j"
  let ?xs = "callers c"
  let ?ys = "?xs[i := Calling]"
  from assms(2,4) have "Suc (length (filter (\<lambda>x. x = Holding) ?ys))
      = length (filter (\<lambda>x. x = Holding) ?xs)"
    by (intro filter_update_loss) simp_all
  moreover from ne assms(3,5) have "?ys ! j = Holding" "j < length ?ys"
    by simp_all
  then have "Holding \<in> set (filter (\<lambda>x. x = Holding) ?ys)"
    by (auto simp: in_set_conv_nth)
  then have "0 < length (filter (\<lambda>x. x = Holding) ?ys)"
    by (metis length_pos_if_in_set)
  ultimately show False
    using assms(1) unfolding holders_def by linarith
qed

lemma mutex_invariant:
  assumes "reaches envs fl (initial n s0) c"
  shows "length (callers c) = n \<and> holders c = (if tokenMutex c then 1 else 0)"
  using assms
proof (induction rule: reaches.induct)
  case same
  show ?case
    by (simp add: initial_def holders_def)
next
  case (after c' c'')
  from after.hyps(2) after.IH show ?case
  proof (cases rule: step.cases)
    case (Lock i)
    with after.IH show ?thesis
      by (simp add: holders_def filter_update_gain)
  next
    case (Unlock i res s')
    with after.IH have "tokenMutex c'"
      using filter_update_loss [of i "callers c'" "\<lambda>x. x = Holding" Calling]
      by (auto simp: holders_def split: if_splits)
    with Unlock after.IH
      filter_update_loss [of i "callers c'" "\<lambda>x. x = Holding" "Returned res"]
    show ?thesis
      by (auto simp: holders_def)
  qed
qed


lemma mintCount_invalid:
  assumes "\<not> nowToken e < installationTokenExpiry s"
  shows "mintCount (snd (getInstallationToken e fl s)) = Suc (mintCount s)"
proof -
  from getInstallationToken_invalid_calls [OF assms, of fl]
  obtain cs where c: "calls (snd (getInstallationToken e fl s))
      = calls s @ SignJWT (clientID fl) # cs"
    and cs: "cs = [] \<or> (\<exists>url jwt. cs = [Post url jwt])"
    by blast
  from cs have "filter isSignJWT cs = []"
    by auto
  with c show ?thesis
    by (simp add: mintCount_def)
qed

lemma mintCount_step:
  "mintCount (snd (getInstallationToken e fl s)) \<le> Suc (mintCount s)"
  by (cases "nowToken e < installationTokenExpiry s")
    (simp_all add: getInstallationToken_valid mintCount_invalid)

lemma getInstallationToken_refreshed:
  assumes "\<not> nowToken e < installationTokenExpiry s"
    and "getInstallationToken e fl s = (Inr tok, s')"
  shows "installationToken s' = tok
    \<and> installationTokenExpiry s' = nowMint e + Hour - 3 * Minute"
proof -
  let ?s1 = "s\<lparr>calls := calls s @ [SignJWT (clientID fl)]\<rparr>"
  from assms(2) obtain jwt where jwt: "signJWT e (clientID fl) = Inr jwt"
    by (auto simp: getInstallationToken_invalid [OF assms(1)] split: sum.splits)
  obtain res s2 where g: "GetInstallationToken e fl jwt ?s1 = (res, s2)"
    by (cases "GetInstallationToken e fl jwt ?s1")
  from assms(2) jwt g obtain expiry where res: "res = Inr (tok, expiry)"
    and s': "s' = s2\<lparr>installationToken := tok, installationTokenExpiry := expiry - 3 * Minute\<rparr>"
    by (cases res) (auto simp: getInstallationToken_invalid [OF assms(1)])
  from g res have "expiry = nowMint e + Hour"
    by (simp add: GetInstallationToken_expiry)
  with s' show ?thesis by simp
qed

lemma returnedCount_zero:
  "returnedCount c = 0 \<Longrightarrow> j < length (callers c) \<Longrightarrow> callers c ! j \<noteq> Returned res"
proof
  assume z: "returnedCount c = 0" and j: "j < length (callers c)"
    and r: "callers c ! j = Returned res"
  from j r have "Returned res \<in> set (callers c)"
    by (metis nth_mem)
  then have "Returned res \<in> set (filter isReturned (callers c))"
    by simp
  with z show False
    by (simp add: returnedCount_def)
qed

lemma mint_bound:
  assumes "reaches envs fl (initial n s0) c"
  shows "mintCount (shared c) \<le> mintCount s0 + returnedCount c"
  using assms
proof (induction rule: reaches.induct)
  case same
  show ?case by (simp add: initial_def)
next
  case (after c' c'')
  from after.hyps(2) show ?case
  proof (cases rule: step.cases)
    case (Lock i)
    then have "returnedCount c'' = returnedCount c'"
      by (simp add: returnedCount_def filter_update_same)
    with Lock after.IH show ?thesis by simp
  next
    case (Unlock i res s')
    then have "returnedCount c'' = Suc (returnedCount c')"
      by (simp add: returnedCount_def filter_update_gain)
    moreover from Unlock mintCount_step [of "envs i" fl "shared c'"]
    have "mintCount (shared c'') \<le> Suc (mintCount (shared c'))"
      by simp
    ultimately show ?thesis
      using after.IH by simp
  qed
qed

lemma single_flight:
  assumes "reaches envs fl (initial n s0) c" and "mintsSucceed envs fl n s0"
  shows "length (callers c) = n
    \<and> (returnedCount c = 0 \<longrightarrow> shared c = s0)
    \<and> (0 < returnedCount c \<longrightarrow>
          mintCount (shared c) = Suc (mintCount s0)
        \<and> (\<exists>k<n. installationTokenExpiry (shared c) = nowMint (envs k) + Hour - 3 * Minute)
        \<and> (\<forall>i<n. \<forall>res. callers c ! i = Returned res \<longrightarrow>
              res = Inr (installationToken (shared c))))"
  using assms(1)
proof (induction rule: reaches.induct)
  case same
  show ?case
    by (simp add: initial_def returnedCount_def)
next
  case (after c' c'')
  from assms(2) have inv0: "\<And>i. i < n \<Longrightarrow> \<not> nowToken (envs i) < installationTokenExpiry s0"
    and ok: "\<And>i s. i < n \<Longrightarrow> \<not> nowToken (envs i) < installationTokenExpiry s \<Longrightarrow>
             \<not> isl (fst (getInstallationToken (envs i) fl s))"
    and fresh: "\<And>i j. i < n \<Longrightarrow> j < n \<Longrightarrow>
        nowToken (envs j) < nowMint (envs i) + Hour - 3 * Minute"
    by (auto simp: mintsSucceed_def)
  from after.IH have len: "length (callers c') = n"
    by simp
  from after.hyps(2) show ?case
  proof (cases rule: step.cases)
    case (Lock i)
    then have rc: "returnedCount c'' = returnedCount c'"
      by (simp add: returnedCount_def filter_update_same)
    have "callers c' ! j = Returned res" if "callers c'' ! j = Returned res" "j < n" for j res
      using that Lock len by (cases "j = i") auto
    with Lock rc after.IH show ?thesis
      by auto
  next
    case (Unlock i res s')
    then have rc: "returnedCount c'' = Suc (returnedCount c')"
      by (simp add: returnedCount_def filter_update_gain)
    from Unlock len have i: "i < n" by simp
    show ?thesis
    proof (cases "returnedCount c' = 0")
      case True
      with after.IH have s0: "shared c' = s0" by simp
      with inv0 [OF i] have invalid: "\<not> nowToken (envs i) < installationTokenExpiry (shared c')"
        by simp
      from ok [OF i invalid] Unlock(4) obtain tok where res: "res = Inr tok"
        by (cases res) auto
      from getInstallationToken_refreshed [OF invalid Unlock(4) [unfolded res]]
      have t: "installationToken s' = tok"
        and x: "installationTokenExpiry s' = nowMint (envs i) + Hour - 3 * Minute"
        by simp_all
      from mintCount_invalid [OF invalid, of fl] Unlock(4) s0
      have m: "mintCount s' = Suc (mintCount s0)"
        by simp
      have "r = Inr tok" if "callers c'' ! j = Returned r" "j < n" for j r
      proof (cases "j = i")
        case True
        with that Unlock len res show ?thesis by simp
      next
        case False
        with that Unlock have "callers c' ! j = Returned r" by simp
        with returnedCount_zero [OF True, of j r] that(2) len show ?thesis
          by simp
      qed
      with Unlock len t x m i rc show ?thesis
        by auto
    next
      case False
      with after.IH obtain k where k: "k < n"
        and x: "installationTokenExpiry (shared c') = nowMint (envs k) + Hour - 3 * Minute"
        and m: "mintCount (shared c') = Suc (mintCount s0)"
        and all: "\<And>j r. j < n \<Longrightarrow> callers c' ! j = Returned r \<Longrightarrow>
            r = Inr (installationToken (shared c'))"
        by auto
      from fresh [OF k i] x have "nowToken (envs i) < installationTokenExpiry (shared c')"
        by simp
      from getInstallationToken_valid [OF this, of fl] Unlock(4)
      have res: "res = Inr (installationToken (shared c'))" and s': "s' = shared c'"
        by simp_all
      have "r = Inr (installationToken (shared c'))"
        if "callers c'' ! j = Returned r" "j < n" for j r
      proof (cases "j = i")
        case True
        with that Unlock len res show ?thesis by simp
      next
        case False
        with that Unlock have "callers c' ! j = Returned r" by simp
        with all that(2) show ?thesis by simp
      qed
      with Unlock len k x m s' rc show ?thesis
        by auto
    qed
  qed
qed


text \<open>
  C9, as amended. In every system that \<open>n\<close> concurrent calls can reach, at most one
  caller holds the mutex, so at most one mint is in flight, and none when the mutex is
  free. Each call mints at most once: the mints made are at most those before plus the
  callers that have returned. When every mint succeeds and is fresh, nothing is minted
  before the first caller returns, and from then on exactly one mint has been made and
  every caller that has returned has got the token now in the cache. (When a mint fails
  the cache stays expired and the next caller mints again: see the counterexample.)
\<close>

theorem token_calls_serialised:
  assumes "reaches envs fl (initial n s0) c"
  shows "(\<forall>i<n. \<forall>j<n. callers c ! i = Holding \<and> callers c ! j = Holding \<longrightarrow> i = j)
    \<and> (\<not> tokenMutex c \<longrightarrow> (\<forall>i<n. callers c ! i \<noteq> Holding))
    \<and> mintCount (shared c) \<le> mintCount s0 + returnedCount c
    \<and> (mintsSucceed envs fl n s0 \<and> returnedCount c = 0 \<longrightarrow> shared c = s0)
    \<and> (mintsSucceed envs fl n s0 \<and> 0 < returnedCount c \<longrightarrow>
          mintCount (shared c) = mintCount s0 + 1
        \<and> (\<forall>i<n. \<forall>res. callers c ! i = Returned res \<longrightarrow>
              res = Inr (installationToken (shared c))))"
proof -
  from mutex_invariant [OF assms] have len: "length (callers c) = n"
    and h: "holders c = (if tokenMutex c then 1 else 0)"
    by simp_all
  from h have h1: "holders c \<le> 1"
    by simp
  have excl: "\<forall>i<n. \<forall>j<n. callers c ! i = Holding \<and> callers c ! j = Holding \<longrightarrow> i = j"
    using holders_one [OF h1] len by blast
  have free: "\<forall>i<n. callers c ! i \<noteq> Holding" if "\<not> tokenMutex c"
  proof (intro allI impI notI)
    fix i
    assume "i < n" and "callers c ! i = Holding"
    with len have "Holding \<in> set (filter (\<lambda>x. x = Holding) (callers c))"
      by (auto simp: in_set_conv_nth)
    then have "0 < holders c"
      unfolding holders_def by (metis length_pos_if_in_set)
    with h that show False
      by simp
  qed
  note b = mint_bound [OF assms]
  have "mintsSucceed envs fl n s0 \<longrightarrow>
      (returnedCount c = 0 \<longrightarrow> shared c = s0)
    \<and> (0 < returnedCount c \<longrightarrow>
          mintCount (shared c) = mintCount s0 + 1
        \<and> (\<forall>i<n. \<forall>res. callers c ! i = Returned res \<longrightarrow>
              res = Inr (installationToken (shared c))))"
    using single_flight [OF assms] by simp
  with excl free b show ?thesis
    by blast
qed

lemma example_mintsSucceed: "mintsSucceed (\<lambda>i. exampleEnv) exampleFlags 2 expiredState"
proof -
  have "\<not> isl (fst (getInstallationToken exampleEnv exampleFlags s))"
    if "\<not> nowToken exampleEnv < installationTokenExpiry s" for s
    by (simp add: getInstallationToken_invalid [OF that])
      (simp add: example_defs token_defs Let_def)
  then show ?thesis
    by (simp add: mintsSucceed_def) (simp add: example_defs time_defs)
qed

lemma step_twice:
  assumes "getInstallationToken (envs 0) fl s0 = (r0, s1)"
    and "getInstallationToken (envs 1) fl s1 = (r1, s2)"
  shows "reaches envs fl (initial 2 s0)
    \<lparr>tokenMutex = False, shared = s2, callers = [Returned r0, Returned r1]\<rparr>"
proof -
  let ?c0 = "initial 2 s0"
  let ?c1 = "\<lparr>tokenMutex = True, shared = s0, callers = [Holding, Calling]\<rparr>"
  let ?c2 = "\<lparr>tokenMutex = False, shared = s1, callers = [Returned r0, Calling]\<rparr>"
  let ?c3 = "\<lparr>tokenMutex = True, shared = s1, callers = [Returned r0, Holding]\<rparr>"
  let ?c4 = "\<lparr>tokenMutex = False, shared = s2, callers = [Returned r0, Returned r1]\<rparr>"
  have 1: "step envs fl ?c0 ?c1"
    using Lock [of 0 ?c0 envs fl] by (simp add: initial_def numeral_2_eq_2)
  have 2: "step envs fl ?c1 ?c2"
    using Unlock [of 0 ?c1 envs fl r0 s1] assms(1) by simp
  have 3: "step envs fl ?c2 ?c3"
    using Lock [of 1 ?c2 envs fl] by simp
  have 4: "step envs fl ?c3 ?c4"
    using Unlock [of 1 ?c3 envs fl r1 s2] assms(2) by simp
  from same [of envs fl ?c0] 1 have "reaches envs fl ?c0 ?c1" by (rule after)
  from this 2 have "reaches envs fl ?c0 ?c2" by (rule after)
  from this 3 have "reaches envs fl ?c0 ?c3" by (rule after)
  from this 4 show ?thesis by (rule after)
qed

lemma example_run_minted: "reaches (\<lambda>i. exampleEnv) exampleFlags (initial 2 expiredState) oneMinted"
proof -
  let ?s1 = "expiredState
        \<lparr>installationToken := ''token-1'', installationTokenExpiry := 4421 * Second,
         calls := [SignJWT ''Iv1.0'',
                   Post ''https://api.github.com/app/installations/42/access_tokens'' ''jwt'']\<rparr>"
  have a: "getInstallationToken exampleEnv exampleFlags expiredState = (Inr ''token-1'', ?s1)"
    by (simp add: example_defs time_defs token_defs Let_def)
  have b: "getInstallationToken exampleEnv exampleFlags ?s1 = (Inr ''token-1'', ?s1)"
    by (simp add: example_defs time_defs token_defs Let_def)
  from step_twice [of "\<lambda>i. exampleEnv", OF a b] show ?thesis
    by (simp add: oneMinted_def)
qed

lemma example_run_failed: "reaches (\<lambda>i. mintFails) exampleFlags (initial 2 expiredState) bothFailed"
proof -
  let ?E = "Inl (FailedToGetInstallationToken (InstallationTokenStatus ''401 Unauthorized''))"
  let ?u = "''https://api.github.com/app/installations/42/access_tokens''"
  let ?s1 = "expiredState\<lparr>calls := [SignJWT ''Iv1.0'', Post ?u ''jwt'']\<rparr>"
  let ?s2 = "expiredState\<lparr>calls := [SignJWT ''Iv1.0'', Post ?u ''jwt'',
      SignJWT ''Iv1.0'', Post ?u ''jwt'']\<rparr>"
  have a: "getInstallationToken mintFails exampleFlags expiredState = (?E, ?s1)"
    by (simp add: example_defs time_defs token_defs Let_def)
  have b: "getInstallationToken mintFails exampleFlags ?s1 = (?E, ?s2)"
    by (simp add: example_defs time_defs token_defs Let_def)
  from step_twice [of "\<lambda>i. mintFails", OF a b] show ?thesis
    by (simp add: bothFailed_def)
qed

theorem token_calls_serialised_witness:
  "reaches (\<lambda>i. exampleEnv) exampleFlags (initial 2 expiredState) oneMinted
   \<and> mintsSucceed (\<lambda>i. exampleEnv) exampleFlags 2 expiredState
   \<and> returnedCount oneMinted = 2
   \<and> mintCount expiredState = 0
   \<and> mintCount (shared oneMinted) = 1
   \<and> callers oneMinted = [Returned (Inr ''token-1''), Returned (Inr ''token-1'')]
   \<and> installationToken (shared oneMinted) = ''token-1''
   \<and> reaches (\<lambda>i. mintFails) exampleFlags (initial 2 expiredState) bothFailed
   \<and> returnedCount bothFailed = 2
   \<and> mintCount (shared bothFailed) \<le> 2"
proof -
  have rc: "returnedCount oneMinted = 2" "returnedCount bothFailed = 2"
    "mintCount expiredState = 0"
    by (simp_all add: returnedCount_def mintCount_def oneMinted_def bothFailed_def example_defs)
  have ev: "callers oneMinted = [Returned (Inr ''token-1''), Returned (Inr ''token-1'')]"
    "installationToken (shared oneMinted) = ''token-1''"
    by (simp_all add: oneMinted_def)
  from token_calls_serialised [OF example_run_minted] example_mintsSucceed rc
  have m: "mintCount (shared oneMinted) = 1"
    by simp
  from token_calls_serialised [OF example_run_failed] rc
  have f: "mintCount (shared bothFailed) \<le> 2"
    by simp
  from example_run_minted example_mintsSucceed rc ev m example_run_failed f show ?thesis
    by simp
qed

text \<open>
  C9 as stated fails: two calls issued together on an expired cache, in a world where
  GitHub refuses the exchange, make two mints, one after the other, and each caller gets
  the error of its own.
\<close>

theorem single_mint_counterexample:
  "reaches (\<lambda>i. mintFails) exampleFlags (initial 2 expiredState) bothFailed
   \<and> callers (initial 2 expiredState) = [Calling, Calling]
   \<and> \<not> nowToken mintFails < installationTokenExpiry expiredState
   \<and> callers bothFailed =
        [Returned (Inl (FailedToGetInstallationToken (InstallationTokenStatus ''401 Unauthorized''))),
         Returned (Inl (FailedToGetInstallationToken (InstallationTokenStatus ''401 Unauthorized'')))]
   \<and> mintCount expiredState = 0
   \<and> mintCount (shared bothFailed) = 2"
proof -
  have "callers (initial 2 expiredState) = [Calling, Calling]"
    by (simp add: initial_def numeral_2_eq_2)
  moreover have "\<not> nowToken mintFails < installationTokenExpiry expiredState"
    by (simp add: example_defs time_defs)
  moreover have "mintCount expiredState = 0" "mintCount (shared bothFailed) = 2"
    by (simp_all add: mintCount_def bothFailed_def example_defs)
  ultimately show ?thesis
    using example_run_failed by (simp add: bothFailed_def)
qed

end
